theory Spec2Isabelle
  imports Complex_Main "HOL-Library.Word" "HOL-Library.Multiset"
begin

unbundle bit_operations_syntax

section \<open>Single-precision values\<close>

text \<open>
  The kernels of \<^verbatim>\<open>gmm_cuda.cu\<close> compute on \<^verbatim>\<open>float\<close>. A value is modelled as a
  finite real or one of the three IEEE-754 special values. The special cases of every
  operation (division by zero, square root of a negative number, comparisons with NaN,
  arithmetic on infinities) follow IEEE-754; on finite operands the result of an
  arithmetic operation is the exact real result: rounding, the overflow and underflow of
  sums, products and quotients, and the sign of zero are not modelled.
\<close>

datatype fl = Fin real | PInf | NInf | NaN

instantiation fl :: "{comm_monoid_add, uminus, minus, times, one, inverse}"
begin

definition zero_fl :: fl where
  "zero_fl = Fin 0"

definition one_fl :: fl where
  "one_fl = Fin 1"

fun plus_fl :: "fl \<Rightarrow> fl \<Rightarrow> fl" where
  "plus_fl (Fin a) (Fin b) = Fin (a + b)"
| "plus_fl NaN _ = NaN"
| "plus_fl _ NaN = NaN"
| "plus_fl PInf NInf = NaN"
| "plus_fl NInf PInf = NaN"
| "plus_fl PInf _ = PInf"
| "plus_fl _ PInf = PInf"
| "plus_fl NInf _ = NInf"
| "plus_fl _ NInf = NInf"

fun uminus_fl :: "fl \<Rightarrow> fl" where
  "uminus_fl (Fin a) = Fin (- a)"
| "uminus_fl PInf = NInf"
| "uminus_fl NInf = PInf"
| "uminus_fl NaN = NaN"

definition minus_fl :: "fl \<Rightarrow> fl \<Rightarrow> fl" where
  "minus_fl a b = a + (- b)"

fun times_fl :: "fl \<Rightarrow> fl \<Rightarrow> fl" where
  "times_fl (Fin a) (Fin b) = Fin (a * b)"
| "times_fl NaN _ = NaN"
| "times_fl _ NaN = NaN"
| "times_fl (Fin a) PInf = (if a = 0 then NaN else if 0 < a then PInf else NInf)"
| "times_fl (Fin a) NInf = (if a = 0 then NaN else if 0 < a then NInf else PInf)"
| "times_fl PInf (Fin b) = (if b = 0 then NaN else if 0 < b then PInf else NInf)"
| "times_fl NInf (Fin b) = (if b = 0 then NaN else if 0 < b then NInf else PInf)"
| "times_fl PInf PInf = PInf"
| "times_fl PInf NInf = NInf"
| "times_fl NInf PInf = NInf"
| "times_fl NInf NInf = PInf"

fun divide_fl :: "fl \<Rightarrow> fl \<Rightarrow> fl" where
  "divide_fl (Fin a) (Fin b) =
     (if b = 0 then (if a = 0 then NaN else if 0 < a then PInf else NInf) else Fin (a / b))"
| "divide_fl NaN _ = NaN"
| "divide_fl _ NaN = NaN"
| "divide_fl (Fin a) PInf = Fin 0"
| "divide_fl (Fin a) NInf = Fin 0"
| "divide_fl PInf (Fin b) = (if 0 \<le> b then PInf else NInf)"
| "divide_fl NInf (Fin b) = (if 0 \<le> b then NInf else PInf)"
| "divide_fl PInf PInf = NaN"
| "divide_fl PInf NInf = NaN"
| "divide_fl NInf PInf = NaN"
| "divide_fl NInf NInf = NaN"

definition inverse_fl :: "fl \<Rightarrow> fl" where
  "inverse_fl a = divide (Fin 1) a"

instance
proof
  fix a b c :: fl
  show "a + b + c = a + (b + c)"
    by (cases a; cases b; cases c; simp)
  show "a + b = b + a"
    by (cases a; cases b; simp)
  show "0 + a = a"
    by (cases a; simp add: zero_fl_def)
qed

end

text \<open>The comparison \<^verbatim>\<open>a > b\<close>: false as soon as one side is NaN.\<close>

fun fgt :: "fl \<Rightarrow> fl \<Rightarrow> bool" where
  "fgt (Fin a) (Fin b) = (b < a)"
| "fgt NaN _ = False"
| "fgt _ NaN = False"
| "fgt PInf PInf = False"
| "fgt PInf _ = True"
| "fgt NInf _ = False"
| "fgt (Fin a) PInf = False"
| "fgt (Fin a) NInf = True"

text \<open>The comparison \<^verbatim>\<open>a == b\<close>: NaN is equal to nothing, not even to itself.\<close>

fun feq :: "fl \<Rightarrow> fl \<Rightarrow> bool" where
  "feq NaN _ = False"
| "feq _ NaN = False"
| "feq a b = (a = b)"

text \<open>CUDA's \<^verbatim>\<open>max(float, float)\<close>: when one operand is NaN the other is returned.\<close>

fun fmaxf :: "fl \<Rightarrow> fl \<Rightarrow> fl" where
  "fmaxf NaN b = b"
| "fmaxf a NaN = a"
| "fmaxf a b = (if fgt b a then b else a)"

fun sqrtf :: "fl \<Rightarrow> fl" where
  "sqrtf (Fin a) = (if a < 0 then NaN else Fin (sqrt a))"
| "sqrtf PInf = PInf"
| "sqrtf NInf = NaN"
| "sqrtf NaN = NaN"

text \<open>
  \<^verbatim>\<open>expf\<close> leaves the range of \<^verbatim>\<open>float\<close> on ordinary arguments, so its range is modelled:
  the result is \<open>+Inf\<close> when the exact value is above the largest finite \<^verbatim>\<open>float\<close>
  (\<^verbatim>\<open>FLT_MAX\<close>, for arguments from about 88.73 on), and 0 when it is below half of the
  smallest positive \<^verbatim>\<open>float\<close> (\<^verbatim>\<open>FLT_TRUE_MIN\<close>, for arguments below about -103.98).
\<close>

definition FLT_MAX :: real where
  "FLT_MAX = (2 - 1 / 2 ^ 23) * 2 ^ 127"

definition FLT_TRUE_MIN :: real where
  "FLT_TRUE_MIN = 1 / 2 ^ 149"

fun expf :: "fl \<Rightarrow> fl" where
  "expf (Fin a) =
     (if FLT_MAX < exp a then PInf
      else if exp a < FLT_TRUE_MIN / 2 then Fin 0
      else Fin (exp a))"
| "expf PInf = PInf"
| "expf NInf = Fin 0"
| "expf NaN = NaN"

fun cosf :: "fl \<Rightarrow> fl" where
  "cosf (Fin a) = Fin (cos a)"
| "cosf _ = NaN"

fun sinf :: "fl \<Rightarrow> fl" where
  "sinf (Fin a) = Fin (sin a)"
| "sinf _ = NaN"

definition atan2_real :: "real \<Rightarrow> real \<Rightarrow> real" where
  "atan2_real y x =
     (if 0 < x then arctan (y / x)
      else if x < 0 then (if 0 \<le> y then arctan (y / x) + pi else arctan (y / x) - pi)
      else if 0 < y then pi / 2
      else if y < 0 then - (pi / 2)
      else 0)"

fun atan2f :: "fl \<Rightarrow> fl \<Rightarrow> fl" where
  "atan2f (Fin y) (Fin x) = Fin (atan2_real y x)"
| "atan2f NaN _ = NaN"
| "atan2f _ NaN = NaN"
| "atan2f (Fin y) PInf = Fin 0"
| "atan2f (Fin y) NInf = Fin (if 0 \<le> y then pi else - pi)"
| "atan2f PInf (Fin x) = Fin (pi / 2)"
| "atan2f NInf (Fin x) = Fin (- (pi / 2))"
| "atan2f PInf PInf = Fin (pi / 4)"
| "atan2f PInf NInf = Fin (3 * pi / 4)"
| "atan2f NInf PInf = Fin (- (pi / 4))"
| "atan2f NInf NInf = Fin (- (3 * pi / 4))"

text \<open>Conversion of an \<^verbatim>\<open>int\<close> or \<^verbatim>\<open>unsigned char\<close> to \<^verbatim>\<open>float\<close>.\<close>

definition float_of_nat :: "nat \<Rightarrow> fl" where
  "float_of_nat n = Fin (real n)"

section \<open>Data\<close>

text \<open>
  Device arrays are functions from the element index to the element. \<^verbatim>\<open>uchar4\<close> and
  \<^verbatim>\<open>float3\<close> are CUDA's vector structs; the label map \<^verbatim>\<open>alpha\<close> is an array of
  (signed) \<^verbatim>\<open>char\<close>.
\<close>

record uchar4 =
  uchar4_x :: "8 word"
  uchar4_y :: "8 word"
  uchar4_z :: "8 word"
  uchar4_w :: "8 word"

record float3 =
  float3_x :: fl
  float3_y :: fl
  float3_z :: fl

definition make_float3 :: "fl \<Rightarrow> fl \<Rightarrow> fl \<Rightarrow> float3" where
  "make_float3 a b c = \<lparr>float3_x = a, float3_y = b, float3_z = c\<rparr>"

definition MIXTURES :: nat where
  "MIXTURES = 2"

section \<open>Moment terms and the constants subtracted in finalization\<close>

text \<open>
  \<^verbatim>\<open>get_component\<close>: the products are computed on \<^verbatim>\<open>int\<close> (at most 255 * 255) and then
  converted.
\<close>

definition get_component :: "uchar4 \<Rightarrow> nat \<Rightarrow> fl" where
  "get_component pixel i =
     (if i = 0 then Fin 1
      else if i = 1 then float_of_nat (unat (uchar4_x pixel))
      else if i = 2 then float_of_nat (unat (uchar4_y pixel))
      else if i = 3 then float_of_nat (unat (uchar4_z pixel))
      else if i = 4 then float_of_nat (unat (uchar4_x pixel) * unat (uchar4_x pixel))
      else if i = 5 then float_of_nat (unat (uchar4_x pixel) * unat (uchar4_y pixel))
      else if i = 6 then float_of_nat (unat (uchar4_x pixel) * unat (uchar4_z pixel))
      else if i = 7 then float_of_nat (unat (uchar4_y pixel) * unat (uchar4_y pixel))
      else if i = 8 then float_of_nat (unat (uchar4_y pixel) * unat (uchar4_z pixel))
      else if i = 9 then float_of_nat (unat (uchar4_z pixel) * unat (uchar4_z pixel))
      else Fin 0)"

definition epsilon :: fl where
  "epsilon = Fin (1 / 1000)"

definition get_constant :: "(nat \<Rightarrow> fl) \<Rightarrow> nat \<Rightarrow> fl" where
  "get_constant gmm i =
     (if i = 0 then Fin 0
      else if i = 1 then Fin 0
      else if i = 2 then Fin 0
      else if i = 3 then Fin 0
      else if i = 4 then gmm 1 * gmm 1 + epsilon
      else if i = 5 then gmm 1 * gmm 2
      else if i = 6 then gmm 1 * gmm 3
      else if i = 7 then gmm 2 * gmm 2 + epsilon
      else if i = 8 then gmm 2 * gmm 3
      else if i = 9 then gmm 3 * gmm 3 + epsilon
      else Fin 0)"

section \<open>Warp reduction\<close>

text \<open>
  The five statements \<^verbatim>\<open>v = op(v, s[(lane + d) & 31]); s[lane] = v\<close> for
  \<^verbatim>\<open>d = 16, 8, 4, 2, 1\<close>, executed by the 32 lanes of a warp in lock step: in each step
  every lane reads the shared array as the previous step left it.
\<close>

definition warp_step :: "('a \<Rightarrow> 'a \<Rightarrow> 'a) \<Rightarrow> nat \<Rightarrow> (nat \<Rightarrow> 'a) \<Rightarrow> nat \<Rightarrow> 'a" where
  "warp_step f d s = (\<lambda>lane. f (s lane) (s ((lane + d) mod 32)))"

definition warp_reduce :: "('a \<Rightarrow> 'a \<Rightarrow> 'a) \<Rightarrow> (nat \<Rightarrow> 'a) \<Rightarrow> nat \<Rightarrow> 'a" where
  "warp_reduce f s =
     warp_step f 1 (warp_step f 2 (warp_step f 4 (warp_step f 8 (warp_step f 16 s))))"

section \<open>GMMFinalizeKernel\<close>

text \<open>
  One block of \<^verbatim>\<open>32 * warp_N\<close> threads per cluster; both launches use \<^verbatim>\<open>warp_N = 4\<close>.
  Thread \<open>t\<close> first adds the partial records of the tiles \<open>t, t + 128, ...\<close>.
\<close>

definition warp_N :: nat where
  "warp_N = 4"

definition thread_N :: nat where
  "thread_N = warp_N * 32"

function partial_loop :: "(nat \<Rightarrow> fl) \<Rightarrow> nat \<Rightarrow> nat \<Rightarrow> nat \<Rightarrow> nat \<Rightarrow> fl \<Rightarrow> fl" where
  "partial_loop gmm_partial gmm_pitch i N j thread_gmm =
     (if j < N
      then partial_loop gmm_partial gmm_pitch i N (j + thread_N)
             (thread_gmm + gmm_partial (j * gmm_pitch + i))
      else thread_gmm)"
  by pat_completeness auto
termination
  by (relation "measure (\<lambda>(gmm_partial, gmm_pitch, i, N, j, thread_gmm). N - j)")
     (auto simp: thread_N_def warp_N_def)

declare partial_loop.simps [simp del]

text \<open>The value \<^verbatim>\<open>thread_gmm\<close> of thread \<open>t\<close> after the warp reduction.\<close>

definition warp_sum :: "(nat \<Rightarrow> fl) \<Rightarrow> nat \<Rightarrow> nat \<Rightarrow> nat \<Rightarrow> nat \<Rightarrow> fl" where
  "warp_sum gmm_partial gmm_pitch i N thread_idx =
     warp_reduce (+)
       (\<lambda>lane. partial_loop gmm_partial gmm_pitch i N (32 * (drop_bit 5 thread_idx) + lane) (Fin 0))
       (thread_idx AND 31)"

text \<open>
  \<^verbatim>\<open>s_final[warp_idx]\<close> is stored by every lane of the warp; all lanes hold the same
  value here, the one of lane 0 is taken. Thread 0 then adds \<^verbatim>\<open>s_final[1..warp_N-1]\<close>.
\<close>

definition s_final :: "(nat \<Rightarrow> fl) \<Rightarrow> nat \<Rightarrow> nat \<Rightarrow> nat \<Rightarrow> nat \<Rightarrow> fl" where
  "s_final gmm_partial gmm_pitch i N warp_idx =
     warp_sum gmm_partial gmm_pitch i N (32 * warp_idx)"

definition block_sum :: "(nat \<Rightarrow> fl) \<Rightarrow> nat \<Rightarrow> nat \<Rightarrow> nat \<Rightarrow> fl" where
  "block_sum gmm_partial gmm_pitch N i =
     fold (\<lambda>j thread_gmm. thread_gmm + s_final gmm_partial gmm_pitch i N j) [1..<warp_N]
       (warp_sum gmm_partial gmm_pitch i N 0)"

text \<open>
  The body of the loop over the ten statistics, as thread 0 runs it: \<open>raw i\<close> is the
  reduced sum of statistic \<open>i\<close>; the state is \<^verbatim>\<open>final_gmm\<close> and \<^verbatim>\<open>norm_factor\<close>.
\<close>

definition finalize_step :: "(nat \<Rightarrow> fl) \<Rightarrow> nat \<Rightarrow> (nat \<Rightarrow> fl) \<times> fl \<Rightarrow> (nat \<Rightarrow> fl) \<times> fl" where
  "finalize_step raw i st =
     (let final_gmm = fst st;
          norm_factor = snd st;
          thread_gmm = raw i
      in (final_gmm(i := norm_factor * thread_gmm - get_constant final_gmm i),
          if i = 0 \<and> fgt thread_gmm (Fin 0) then Fin 1 / thread_gmm else norm_factor))"

definition finalize_moments :: "(nat \<Rightarrow> fl) \<Rightarrow> (nat \<Rightarrow> fl) \<Rightarrow> nat \<Rightarrow> fl" where
  "finalize_moments raw final_gmm = fst (fold (finalize_step raw) [0..<10] (final_gmm, Fin 1))"

text \<open>The packed index tables and their decoding.\<close>

definition det_indices :: "int list" where
  "det_indices =
     [push_bit (4*4) 9 + push_bit (3*4) 4 + push_bit (2*4) 6 + push_bit (1*4) 5 + push_bit (0*4) 4,
      push_bit (4*4) 5 + push_bit (3*4) 8 + push_bit (2*4) 6 + push_bit (1*4) 6 + push_bit (0*4) 7,
      push_bit (4*4) 5 + push_bit (3*4) 8 + push_bit (2*4) 7 + push_bit (1*4) 8 + push_bit (0*4) 9]"

definition inv_indices :: "int list" where
  "inv_indices =
     [push_bit (5*4) 4 + push_bit (4*4) 5 + push_bit (3*4) 4 + push_bit (2*4) 5 + push_bit (1*4) 6 + push_bit (0*4) 7,
      push_bit (5*4) 7 + push_bit (4*4) 6 + push_bit (3*4) 9 + push_bit (2*4) 8 + push_bit (1*4) 8 + push_bit (0*4) 9,
      push_bit (5*4) 5 + push_bit (4*4) 4 + push_bit (3*4) 6 + push_bit (2*4) 6 + push_bit (1*4) 5 + push_bit (0*4) 8,
      push_bit (5*4) 5 + push_bit (4*4) 8 + push_bit (3*4) 6 + push_bit (2*4) 7 + push_bit (1*4) 9 + push_bit (0*4) 8]"

definition unpack_index :: "int list \<Rightarrow> nat \<Rightarrow> nat \<Rightarrow> nat" where
  "unpack_index table k t = nat (drop_bit (t * 4) ((table ! k) AND push_bit (t * 4) 15))"

text \<open>
  Threads 0..4 store one product each in \<^verbatim>\<open>final_gmm[10..14]\<close>, then the determinant
  goes to \<^verbatim>\<open>final_gmm[10]\<close>.
\<close>

definition finalize_det :: "(nat \<Rightarrow> fl) \<Rightarrow> nat \<Rightarrow> fl" where
  "finalize_det final_gmm =
     (let g = fold (\<lambda>t g. g(10 + t :=
                  final_gmm (unpack_index det_indices 0 t)
                    * final_gmm (unpack_index det_indices 1 t)
                    * final_gmm (unpack_index det_indices 2 t))) [0..<5] final_gmm;
          det = g 10 + Fin 2 * g 11 - g 12 - g 13 - g 14
      in g(10 := det))"

text \<open>Threads 0..5 overwrite the covariance entries by the entries of the inverse.\<close>

definition inv_temp :: "(nat \<Rightarrow> fl) \<Rightarrow> nat \<Rightarrow> fl" where
  "inv_temp final_gmm t =
     final_gmm (unpack_index inv_indices 0 t) * final_gmm (unpack_index inv_indices 1 t)
       - final_gmm (unpack_index inv_indices 2 t) * final_gmm (unpack_index inv_indices 3 t)"

definition finalize_inv :: "(nat \<Rightarrow> fl) \<Rightarrow> nat \<Rightarrow> fl" where
  "finalize_inv final_gmm =
     fold (\<lambda>t g. g(4 + t :=
             (if fgt (final_gmm 10) (Fin 0) then inv_temp final_gmm t / final_gmm 10 else Fin 0)))
       [0..<6] final_gmm"

text \<open>
  The shared array \<^verbatim>\<open>final_gmm\<close> as the block leaves it; \<open>final_gmm0\<close> is its
  (uninitialised) content at the start.
\<close>

definition finalize_block :: "bool \<Rightarrow> (nat \<Rightarrow> fl) \<Rightarrow> (nat \<Rightarrow> fl) \<Rightarrow> nat \<Rightarrow> fl" where
  "finalize_block invertSigma raw final_gmm0 =
     (let final_gmm = finalize_det (finalize_moments raw final_gmm0)
      in if invertSigma then finalize_inv final_gmm else final_gmm)"

text \<open>
  The block of cluster \<open>blockIdx\<close> reads the partial records of its \<open>N\<close> tiles from
  \<^verbatim>\<open>gmm_partial = &gmm_scratch[N * blockIdx.x * gmm_pitch]\<close>; \<open>cluster_sums\<close> are the ten
  values \<^verbatim>\<open>thread_gmm\<close> that thread 0 holds after the reductions.
\<close>

definition cluster_sums :: "(nat \<Rightarrow> fl) \<Rightarrow> nat \<Rightarrow> nat \<Rightarrow> nat \<Rightarrow> nat \<Rightarrow> fl" where
  "cluster_sums gmm_scratch gmm_pitch N blockIdx =
     block_sum (\<lambda>a. gmm_scratch (N * blockIdx * gmm_pitch + a)) gmm_pitch N"

definition GMMFinalizeKernel ::
  "bool \<Rightarrow> (nat \<Rightarrow> fl) \<Rightarrow> (nat \<Rightarrow> fl) \<Rightarrow> nat \<Rightarrow> nat \<Rightarrow> (nat \<Rightarrow> fl) \<Rightarrow> nat \<Rightarrow> nat \<Rightarrow> fl" where
  "GMMFinalizeKernel invertSigma gmm gmm_scratch gmm_pitch N final_gmm0 blockIdx =
     (let final_gmm = finalize_block invertSigma (cluster_sums gmm_scratch gmm_pitch N blockIdx)
                        final_gmm0
      in fold (\<lambda>t g. g(blockIdx * gmm_pitch + t := final_gmm t)) [0..<11] gmm)"

text \<open>
  The closed forms that the specification names: the determinant of the symmetric matrix
  with upper triangle \<open>a b c / d e / f\<close>, its six cofactors in the order of the slots
  4..9, and its quadratic form.
\<close>

definition sym3_det :: "fl \<Rightarrow> fl \<Rightarrow> fl \<Rightarrow> fl \<Rightarrow> fl \<Rightarrow> fl \<Rightarrow> fl" where
  "sym3_det a b c d e f = a * d * f + Fin 2 * (b * c * e) - c * c * d - a * e * e - f * b * b"

definition sym3_cofactors :: "fl \<Rightarrow> fl \<Rightarrow> fl \<Rightarrow> fl \<Rightarrow> fl \<Rightarrow> fl \<Rightarrow> fl list" where
  "sym3_cofactors a b c d e f =
     [d * f - e * e, c * e - b * f, b * e - c * d, a * f - c * c, b * c - a * e, a * d - b * b]"

definition sym3_quadratic_form :: "(nat \<Rightarrow> fl) \<Rightarrow> float3 \<Rightarrow> fl" where
  "sym3_quadratic_form M v =
     float3_x v * float3_x v * M 0 + float3_y v * float3_y v * M 3 + float3_z v * float3_z v * M 5
       + Fin 2 * (float3_x v * float3_y v * M 1 + float3_x v * float3_z v * M 2
                    + float3_y v * float3_z v * M 4)"

section \<open>GMMcommonTerm\<close>

text \<open>
  A single block of 32 x 2 threads: \<^verbatim>\<open>threadIdx.y\<close> is the top-level mixture,
  \<^verbatim>\<open>threadIdx.x\<close> the cluster within it. Every thread reads its cluster's pixel count, the
  counts are added over the 32 lanes of the warp, and the threads below \<^verbatim>\<open>gmmK\<close> replace
  the determinant in slot 10 by the common term. Each thread reads and writes its own
  record only, so all reads are taken from the table as the kernel found it.
\<close>

definition commonTerm_gmm_n :: "nat \<Rightarrow> (nat \<Rightarrow> fl) \<Rightarrow> nat \<Rightarrow> nat \<Rightarrow> nat \<Rightarrow> fl" where
  "commonTerm_gmm_n gmmK gmm gmm_pitch y x =
     (if x < gmmK then gmm (((x * 2) OR y) * gmm_pitch) else Fin 0)"

definition commonTerm_thread ::
  "nat \<Rightarrow> (nat \<Rightarrow> fl) \<Rightarrow> nat \<Rightarrow> nat \<times> nat \<Rightarrow> (nat \<Rightarrow> fl) \<Rightarrow> nat \<Rightarrow> fl" where
  "commonTerm_thread gmmK gmm0 gmm_pitch thread gmm =
     (let x = fst thread;
          y = snd thread;
          gmm_idx = (x * 2) OR y;
          gmm_n = commonTerm_gmm_n gmmK gmm0 gmm_pitch y x;
          sum = warp_reduce (+) (commonTerm_gmm_n gmmK gmm0 gmm_pitch y) x
      in if x < gmmK
         then (let det = gmm0 (gmm_idx * gmm_pitch + 10);
                   commonTerm = gmm_n / (sqrtf det * sum)
               in gmm(gmm_idx * gmm_pitch + 10 := commonTerm))
         else gmm)"

definition GMMcommonTerm :: "nat \<Rightarrow> (nat \<Rightarrow> fl) \<Rightarrow> nat \<Rightarrow> nat \<Rightarrow> fl" where
  "GMMcommonTerm gmmK gmm gmm_pitch =
     fold (commonTerm_thread gmmK gmm gmm_pitch) (List.product [0..<32] [0..<2]) gmm"

section \<open>GMMTerm and GMMDataTermKernel\<close>

definition GMMTerm :: "uchar4 \<Rightarrow> (nat \<Rightarrow> fl) \<Rightarrow> fl" where
  "GMMTerm pixel gmm =
     (let v = make_float3 (float_of_nat (unat (uchar4_x pixel)) - gmm 1)
                          (float_of_nat (unat (uchar4_y pixel)) - gmm 2)
                          (float_of_nat (unat (uchar4_z pixel)) - gmm 3);
          xxa = float3_x v * float3_x v * gmm 4;
          yyd = float3_y v * float3_y v * gmm 7;
          zzf = float3_z v * float3_z v * gmm 9;
          yxb = float3_x v * float3_y v * gmm 5;
          zxc = float3_z v * float3_x v * gmm 6;
          zye = float3_z v * float3_y v * gmm 8
      in gmm 10 * expf (Fin (- (1 / 2)) * (xxa + yyd + zzf + Fin 2 * (yxb + zxc + zye))))"

text \<open>The inner loop \<^verbatim>\<open>for (j = 0; j < gmmN; j += MIXTURES)\<close> of mixture \<open>i\<close>.\<close>

function mixture_loop ::
  "uchar4 \<Rightarrow> nat \<Rightarrow> (nat \<Rightarrow> fl) \<Rightarrow> nat \<Rightarrow> nat \<Rightarrow> nat \<Rightarrow> fl \<Rightarrow> fl" where
  "mixture_loop pixel gmmN gmm gmm_pitch i j mixture_weight =
     (if j < gmmN
      then mixture_loop pixel gmmN gmm gmm_pitch i (j + MIXTURES)
             (mixture_weight + GMMTerm pixel (\<lambda>a. gmm ((j + i) * gmm_pitch + a)))
      else mixture_weight)"
  by pat_completeness auto
termination
  by (relation "measure (\<lambda>(pixel, gmmN, gmm, gmm_pitch, i, j, mixture_weight). gmmN - j)")
     (auto simp: MIXTURES_def)

declare mixture_loop.simps [simp del]

text \<open>The outer loop: the state is the array \<^verbatim>\<open>weights\<close> and \<^verbatim>\<open>weight_total\<close>.\<close>

definition weights_step ::
  "uchar4 \<Rightarrow> nat \<Rightarrow> (nat \<Rightarrow> fl) \<Rightarrow> nat \<Rightarrow> nat \<Rightarrow> (nat \<Rightarrow> fl) \<times> fl \<Rightarrow> (nat \<Rightarrow> fl) \<times> fl" where
  "weights_step pixel gmmN gmm gmm_pitch i st =
     (let mixture_weight = mixture_loop pixel gmmN gmm gmm_pitch i 0 (Fin 0)
      in ((fst st)(i := mixture_weight), snd st + mixture_weight))"

definition data_term_weights ::
  "uchar4 \<Rightarrow> nat \<Rightarrow> (nat \<Rightarrow> fl) \<Rightarrow> nat \<Rightarrow> (nat \<Rightarrow> fl) \<times> fl" where
  "data_term_weights pixel gmmN gmm gmm_pitch =
     fold (weights_step pixel gmmN gmm gmm_pitch) [0..<MIXTURES] (\<lambda>i. Fin 0, Fin 0)"

text \<open>
  One thread of the kernel, at pixel \<open>(x, y)\<close>. The output buffer maps an element index
  to \<open>Some\<close> value once the element has been written; \<open>None\<close> is an element that still
  holds whatever the allocation left there.
\<close>

definition GMMDataTermKernel ::
  "(nat \<Rightarrow> uchar4) \<Rightarrow> nat \<Rightarrow> (nat \<Rightarrow> fl) \<Rightarrow> nat \<Rightarrow> (nat \<Rightarrow> fl option) \<Rightarrow> nat \<Rightarrow> nat
     \<Rightarrow> nat \<times> nat \<Rightarrow> nat \<Rightarrow> fl option" where
  "GMMDataTermKernel img gmmN gmm gmm_pitch output width height thread =
     (let x = fst thread; y = snd thread
      in if x \<ge> width \<or> y \<ge> height then output
         else (let pixel = img (x + y * width);
                   st = data_term_weights pixel gmmN gmm gmm_pitch;
                   weights = fst st;
                   weight_total = snd st
               in fold (\<lambda>i out. out(x + y * width + i * height * width
                                      := Some (weights i / weight_total)))
                    [0..<MIXTURES] output))"



section \<open>Principal eigenvalue and eigenvector\<close>

definition normalize_float3 :: "float3 \<Rightarrow> float3" where
  "normalize_float3 v =
     (let norm = Fin 1 / sqrtf (float3_x v * float3_x v + float3_y v * float3_y v
                                  + float3_z v * float3_z v)
      in make_float3 (float3_x v * norm) (float3_y v * norm) (float3_z v * norm))"

definition mul_right :: "(nat \<Rightarrow> fl) \<Rightarrow> float3 \<Rightarrow> float3" where
  "mul_right M v =
     make_float3 (M 0 * float3_x v + M 1 * float3_y v + M 2 * float3_z v)
                 (M 1 * float3_x v + M 3 * float3_y v + M 4 * float3_z v)
                 (M 2 * float3_x v + M 4 * float3_y v + M 5 * float3_z v)"

definition largest_eigenvalue :: "(nat \<Rightarrow> fl) \<Rightarrow> fl" where
  "largest_eigenvalue M =
     (let norm0 = (if fgt (M 0) (M 3) then M 0 else M 3);
          norm1 = (if fgt (M 0) (M 5) then M 0 else M 5);
          norm = Fin 1 / norm1;
          a00 = norm * M 0;
          a01 = norm * M 1;
          a02 = norm * M 2;
          a11 = norm * M 3;
          a12 = norm * M 4;
          a22 = norm * M 5;
          c0 = a00*a11*a22 + Fin 2*a01*a02*a12 - a00*a12*a12 - a11*a02*a02 - a22*a01*a01;
          c1 = a00*a11 - a01*a01 + a00*a22 - a02*a02 + a11*a22 - a12*a12;
          c2 = a00 + a11 + a22;
          inv3 = Fin 1 / Fin 3;
          root3 = sqrtf (Fin 3);
          c2Div3 = c2*inv3;
          aDiv3' = (c1 - c2*c2Div3)*inv3;
          aDiv3 = (if fgt aDiv3' (Fin 0) then Fin 0 else aDiv3');
          mbDiv2 = Fin (1 / 2)*(c0 + c2Div3*(Fin 2*c2Div3*c2Div3 - c1));
          q' = mbDiv2*mbDiv2 + aDiv3*aDiv3*aDiv3;
          q = (if fgt q' (Fin 0) then Fin 0 else q');
          magnitude = sqrtf (- aDiv3);
          angle = atan2f (sqrtf (- q)) mbDiv2*inv3;
          cs = cosf angle;
          sn = sinf angle;
          largest0 = c2Div3 + Fin 2*magnitude*cs;
          eigenvalue1 = c2Div3 - magnitude*(cs + root3*sn);
          largest1 = (if fgt eigenvalue1 largest0 then eigenvalue1 else largest0);
          eigenvalue2 = c2Div3 - magnitude*(cs - root3*sn);
          largest2 = (if fgt eigenvalue2 largest1 then eigenvalue2 else largest1)
      in largest2 / norm)"

definition cross_prod :: "float3 \<Rightarrow> float3 \<Rightarrow> float3" where
  "cross_prod a b =
     make_float3 ((float3_y a * float3_z b) - (float3_z a * float3_y b))
                 ((float3_z a * float3_x b) - (float3_x a * float3_z b))
                 ((float3_x a * float3_y b) - (float3_y a * float3_x b))"

definition compute_eigenvector :: "(nat \<Rightarrow> fl) \<Rightarrow> fl \<Rightarrow> float3" where
  "compute_eigenvector M eigenvalue =
     (let r0 = make_float3 (M 0 - eigenvalue) (M 1) (M 2);
          r1 = make_float3 (M 2) (M 3 - eigenvalue) (M 4);
          eigenvector = cross_prod r0 r1
      in normalize_float3 eigenvector)"

definition scalar_prod :: "float3 \<Rightarrow> float3 \<Rightarrow> fl" where
  "scalar_prod a b = float3_x a * float3_x b + float3_y a * float3_y b + float3_z a * float3_z b"

section \<open>GMMFindSplit\<close>

record GMMSplit_t =
  split_idx :: int
  split_threshold :: fl
  split_eigenvector :: float3

text \<open>
  A single block of 32 x 2 threads. Thread \<open>(x, y)\<close> looks at cluster \<open>2 * x + y\<close>;
  a thread with \<open>x \<ge> gmmK\<close> keeps the eigenvalue 0 and its local \<^verbatim>\<open>eigenvector\<close> is
  never assigned (\<open>uninit\<close> stands for its content).
\<close>

definition findsplit_gmm_idx :: "nat \<Rightarrow> nat \<Rightarrow> nat" where
  "findsplit_gmm_idx y x = push_bit 1 x + y"

definition findsplit_eigenvalue :: "nat \<Rightarrow> (nat \<Rightarrow> fl) \<Rightarrow> nat \<Rightarrow> nat \<Rightarrow> nat \<Rightarrow> fl" where
  "findsplit_eigenvalue gmmK gmm gmm_pitch y x =
     (if x < gmmK
      then largest_eigenvalue (\<lambda>a. gmm (findsplit_gmm_idx y x * gmm_pitch + 4 + a))
      else Fin 0)"

definition findsplit_eigenvector ::
  "nat \<Rightarrow> (nat \<Rightarrow> fl) \<Rightarrow> nat \<Rightarrow> float3 \<Rightarrow> nat \<Rightarrow> nat \<Rightarrow> float3" where
  "findsplit_eigenvector gmmK gmm gmm_pitch uninit y x =
     (if x < gmmK
      then compute_eigenvector (\<lambda>a. gmm (findsplit_gmm_idx y x * gmm_pitch + 4 + a))
             (largest_eigenvalue (\<lambda>a. gmm (findsplit_gmm_idx y x * gmm_pitch + 4 + a)))
      else uninit)"

definition findsplit_maxvalue :: "nat \<Rightarrow> (nat \<Rightarrow> fl) \<Rightarrow> nat \<Rightarrow> nat \<Rightarrow> nat \<Rightarrow> fl" where
  "findsplit_maxvalue gmmK gmm gmm_pitch y x =
     warp_reduce fmaxf (findsplit_eigenvalue gmmK gmm gmm_pitch y) x"

text \<open>The descriptor that thread \<open>(x, y)\<close> stores if its eigenvalue is the maximum.\<close>

definition findsplit_split ::
  "nat \<Rightarrow> (nat \<Rightarrow> fl) \<Rightarrow> nat \<Rightarrow> float3 \<Rightarrow> nat \<Rightarrow> nat \<Rightarrow> GMMSplit_t" where
  "findsplit_split gmmK gmm gmm_pitch uninit y x =
     (let gmm_idx = findsplit_gmm_idx y x;
          eigenvector = findsplit_eigenvector gmmK gmm gmm_pitch uninit y x
      in \<lparr>split_idx = int x,
          split_threshold =
            scalar_prod (make_float3 (gmm (gmm_idx * gmm_pitch + 1)) (gmm (gmm_idx * gmm_pitch + 2))
                                     (gmm (gmm_idx * gmm_pitch + 3))) eigenvector,
          split_eigenvector = eigenvector\<rparr>)"

text \<open>
  Every thread of row \<open>y\<close> that passes the test \<^verbatim>\<open>maxvalue == eigenvalue\<close> stores its
  descriptor in \<^verbatim>\<open>gmmSplit[y]\<close>. The stores are not ordered: \<^verbatim>\<open>gmmSplit[y]\<close> ends up as
  one of the descriptors below, or keeps its content when there is none.
\<close>

definition GMMFindSplit_writers :: "nat \<Rightarrow> (nat \<Rightarrow> fl) \<Rightarrow> nat \<Rightarrow> nat \<Rightarrow> nat list" where
  "GMMFindSplit_writers gmmK gmm gmm_pitch y =
     filter (\<lambda>x. feq (findsplit_maxvalue gmmK gmm gmm_pitch y x)
                      (findsplit_eigenvalue gmmK gmm gmm_pitch y x)) [0..<32]"

definition GMMFindSplit :: "nat \<Rightarrow> (nat \<Rightarrow> fl) \<Rightarrow> nat \<Rightarrow> float3 \<Rightarrow> nat \<Rightarrow> GMMSplit_t list" where
  "GMMFindSplit gmmK gmm gmm_pitch uninit y =
     map (findsplit_split gmmK gmm gmm_pitch uninit y) (GMMFindSplit_writers gmmK gmm gmm_pitch y)"

section \<open>GMMDoSplit\<close>

text \<open>
  What the kernel does at one pixel: \<open>my_alpha\<close> is the pixel's label, a signed
  \<^verbatim>\<open>char\<close> that is promoted to \<^verbatim>\<open>int\<close> for the comparison, the mask and the (arithmetic)
  shift; the new label \<^verbatim>\<open>k + select\<close> is truncated to \<^verbatim>\<open>char\<close> by the store.
\<close>

definition DoSplit_pixel :: "(nat \<Rightarrow> GMMSplit_t) \<Rightarrow> int \<Rightarrow> uchar4 \<Rightarrow> 8 word \<Rightarrow> 8 word" where
  "DoSplit_pixel s_gmmSplit k pixel my_alpha =
     (if sint my_alpha \<noteq> - 1
      then (let select = sint my_alpha AND 1;
                gmm_idx = drop_bit 1 (sint my_alpha)
            in if gmm_idx = split_idx (s_gmmSplit (nat select))
               then (let value = scalar_prod (split_eigenvector (s_gmmSplit (nat select)))
                                   (make_float3 (float_of_nat (unat (uchar4_x pixel)))
                                                (float_of_nat (unat (uchar4_y pixel)))
                                                (float_of_nat (unat (uchar4_z pixel))))
                     in if fgt value (split_threshold (s_gmmSplit (nat select)))
                        then word_of_int (k + select)
                        else my_alpha)
               else my_alpha)
      else my_alpha)"

text \<open>
  The kernel on the whole grid of 32 x 32 tiles: every \<open>(x, y)\<close> of the grid is visited
  by exactly one thread, in one iteration of its row loop. The image is only read.
\<close>

definition DoSplit_thread ::
  "(nat \<Rightarrow> GMMSplit_t) \<Rightarrow> int \<Rightarrow> (nat \<Rightarrow> uchar4) \<Rightarrow> nat \<Rightarrow> nat \<Rightarrow> nat \<times> nat
     \<Rightarrow> (nat \<Rightarrow> 8 word) \<Rightarrow> nat \<Rightarrow> 8 word" where
  "DoSplit_thread gmmSplit k img width height thread alpha =
     (let x = fst thread; y = snd thread
      in if x < width \<and> y < height
         then alpha(y * width + x :=
                DoSplit_pixel gmmSplit k (img (y * width + x)) (alpha (y * width + x)))
         else alpha)"

definition GMMDoSplit ::
  "(nat \<Rightarrow> GMMSplit_t) \<Rightarrow> int \<Rightarrow> (nat \<Rightarrow> uchar4) \<Rightarrow> (nat \<Rightarrow> 8 word) \<Rightarrow> nat \<Rightarrow> nat
     \<Rightarrow> nat \<Rightarrow> 8 word" where
  "GMMDoSplit gmmSplit k img alpha width height =
     (let grid_x = (width + 31) div 32;
          grid_y = (height + 31) div 32
      in fold (DoSplit_thread gmmSplit k img width height)
           (List.product [0..<grid_x * 32] [0..<grid_y * 32]) alpha)"

text \<open>
  The label map through the rounds of \<^verbatim>\<open>GMMInitialize\<close>: in the round with \<open>k\<close>
  clusters, \<open>finder k alpha\<close> is the pair of descriptors that the statistics, finalization
  and \<^verbatim>\<open>GMMFindSplit\<close> stages leave in \<^verbatim>\<open>scratch_mem\<close>, and \<^verbatim>\<open>GMMDoSplit\<close> is launched
  with \<^verbatim>\<open>(k/2) << 1\<close>.
\<close>

function GMMInitialize_alpha ::
  "(nat \<Rightarrow> (nat \<Rightarrow> 8 word) \<Rightarrow> nat \<Rightarrow> GMMSplit_t) \<Rightarrow> nat \<Rightarrow> nat \<Rightarrow> (nat \<Rightarrow> uchar4)
     \<Rightarrow> (nat \<Rightarrow> 8 word) \<Rightarrow> nat \<Rightarrow> nat \<Rightarrow> nat \<Rightarrow> 8 word" where
  "GMMInitialize_alpha finder gmm_N k img alpha width height =
     (if k < gmm_N
      then GMMInitialize_alpha finder gmm_N (k + 2) img
             (GMMDoSplit (finder k alpha) (int (push_bit 1 (k div 2))) img alpha width height)
             width height
      else alpha)"
  by pat_completeness auto
termination
  by (relation "measure (\<lambda>(finder, gmm_N, k, img, alpha, width, height). gmm_N - k)") auto

declare GMMInitialize_alpha.simps [simp del]

section \<open>Auxiliary notions and example inputs\<close>

definition norm_factor_of :: "fl \<Rightarrow> fl" where
  "norm_factor_of n = (if fgt n (Fin 0) then Fin 1 / n else Fin 1)"

definition example_pixel_a :: uchar4 where
  "example_pixel_a = \<lparr>uchar4_x = 10, uchar4_y = 20, uchar4_z = 30, uchar4_w = 0\<rparr>"

definition example_pixel_b :: uchar4 where
  "example_pixel_b = \<lparr>uchar4_x = 20, uchar4_y = 40, uchar4_z = 50, uchar4_w = 0\<rparr>"

definition example_scratch :: "nat \<Rightarrow> fl" where
  "example_scratch a =
     (if a < 10 then get_component example_pixel_a a + get_component example_pixel_b a else Fin 0)"

definition single_pixel_scratch :: "nat \<Rightarrow> fl" where
  "single_pixel_scratch a = (if a < 10 then get_component example_pixel_a a else Fin 0)"

definition mixture_pixels :: "nat \<Rightarrow> (nat \<Rightarrow> fl) \<Rightarrow> nat \<Rightarrow> nat \<Rightarrow> fl" where
  "mixture_pixels gmmK gmm gmm_pitch y = (\<Sum>x<gmmK. gmm ((2 * x + y) * gmm_pitch))"

definition common_term_of :: "nat \<Rightarrow> (nat \<Rightarrow> fl) \<Rightarrow> nat \<Rightarrow> nat \<times> nat \<Rightarrow> fl" where
  "common_term_of gmmK gmm gmm_pitch thread =
     gmm ((2 * fst thread + snd thread) * gmm_pitch)
       / (sqrtf (gmm ((2 * fst thread + snd thread) * gmm_pitch + 10))
            * mixture_pixels gmmK gmm gmm_pitch (snd thread))"

definition pair_common_term :: "(nat \<Rightarrow> fl) \<Rightarrow> nat \<Rightarrow> nat \<Rightarrow> nat \<Rightarrow> fl" where
  "pair_common_term gmm gmm_pitch i j =
     gmm (i * gmm_pitch) / (sqrtf (gmm (i * gmm_pitch + 10)) * (gmm (i * gmm_pitch) + gmm (j * gmm_pitch)))"

text \<open>The launch \<^verbatim>\<open>GMMFinalizeKernel<<<k, 32 * 4>>>\<close>: one block per cluster.\<close>

definition GMMFinalize_launch ::
  "bool \<Rightarrow> nat \<Rightarrow> (nat \<Rightarrow> fl) \<Rightarrow> (nat \<Rightarrow> fl) \<Rightarrow> nat \<Rightarrow> nat \<Rightarrow> (nat \<Rightarrow> fl) \<Rightarrow> nat \<Rightarrow> fl" where
  "GMMFinalize_launch invertSigma k gmm gmm_scratch gmm_pitch N final_gmm0 =
     fold (\<lambda>blockIdx g. GMMFinalizeKernel invertSigma g gmm_scratch gmm_pitch N final_gmm0 blockIdx)
       [0..<k] gmm"

text \<open>
  The end of \<^verbatim>\<open>GMMUpdate\<close>, after the statistics of the \<open>N\<close> tiles are in the scratch
  memory: finalization with inversion for all \<^verbatim>\<open>gmm_N\<close> clusters, then the common terms.
\<close>

definition GMMUpdate_finish ::
  "nat \<Rightarrow> (nat \<Rightarrow> fl) \<Rightarrow> (nat \<Rightarrow> fl) \<Rightarrow> nat \<Rightarrow> nat \<Rightarrow> (nat \<Rightarrow> fl) \<Rightarrow> nat \<Rightarrow> fl" where
  "GMMUpdate_finish gmm_N gmm gmm_scratch gmm_pitch N final_gmm0 =
     GMMcommonTerm (gmm_N div 2)
       (GMMFinalize_launch True gmm_N gmm gmm_scratch (gmm_pitch div 4) N final_gmm0)
       (gmm_pitch div 4)"

definition example_image :: "nat \<Rightarrow> uchar4" where
  "example_image p = (if p = 0 then example_pixel_a else example_pixel_b)"

definition example_table :: "nat \<Rightarrow> fl" where
  "example_table = GMMUpdate_finish 2 (\<lambda>a. Fin 0) example_scratch (11 * 4) 1 (\<lambda>a. Fin 0)"


definition unit_table :: "nat \<Rightarrow> fl" where
  "unit_table a = (if a mod 11 = 0 \<or> a mod 11 = 10 then Fin 1 else Fin 0)"

text \<open>The top-level mixture of a label: the bit that \<^verbatim>\<open>GMMDoSplit\<close> calls \<^verbatim>\<open>select\<close>.\<close>

definition label_mixture :: "8 word \<Rightarrow> int" where
  "label_mixture a = sint a AND 1"

text \<open>
  The colour of a pixel as \<^verbatim>\<open>GMMDoSplit\<close> projects it, and the condition of the
  specification for moving a pixel: it has a label, the label is the cluster chosen for
  its mixture (cluster \<open>2 * idx + select\<close>), and the projection of its colour onto the
  eigenvector strictly exceeds the threshold.
\<close>

definition pixel_color :: "uchar4 \<Rightarrow> float3" where
  "pixel_color pixel =
     make_float3 (float_of_nat (unat (uchar4_x pixel))) (float_of_nat (unat (uchar4_y pixel)))
                 (float_of_nat (unat (uchar4_z pixel)))"

definition relabel_condition :: "(nat \<Rightarrow> GMMSplit_t) \<Rightarrow> uchar4 \<Rightarrow> 8 word \<Rightarrow> bool" where
  "relabel_condition gmmSplit pixel a =
     (sint a \<noteq> - 1
      \<and> sint a = 2 * split_idx (gmmSplit (nat (label_mixture a))) + label_mixture a
      \<and> fgt (scalar_prod (split_eigenvector (gmmSplit (nat (label_mixture a)))) (pixel_color pixel))
             (split_threshold (gmmSplit (nat (label_mixture a)))))"

definition lanes_max :: "(nat \<Rightarrow> fl) \<Rightarrow> fl" where
  "lanes_max s = fold fmaxf (map s [0..<32]) NaN"

definition cluster_mean :: "(nat \<Rightarrow> fl) \<Rightarrow> nat \<Rightarrow> nat \<Rightarrow> float3" where
  "cluster_mean gmm gmm_pitch c =
     make_float3 (gmm (c * gmm_pitch + 1)) (gmm (c * gmm_pitch + 2)) (gmm (c * gmm_pitch + 3))"

text \<open>
  Example tables for \<^verbatim>\<open>GMMFindSplit\<close> (pitch 11, means 0): in \<open>split_table\<close> cluster 0
  has covariance 4 I and cluster 1 has covariance I; in \<open>tie_table\<close> clusters 0 and 2,
  both of mixture 0, have covariance 4 I.
\<close>

definition split_table :: "nat \<Rightarrow> fl" where
  "split_table a =
     (if a = 4 \<or> a = 7 \<or> a = 9 then Fin 4
      else if a = 15 \<or> a = 18 \<or> a = 20 then Fin 1
      else Fin 0)"


definition zero_float3 :: float3 where
  "zero_float3 = make_float3 (Fin 0) (Fin 0) (Fin 0)"

definition example_split :: "nat \<Rightarrow> GMMSplit_t" where
  "example_split s =
     \<lparr>split_idx = 0, split_threshold = Fin 15,
      split_eigenvector = make_float3 (Fin 1) (Fin 0) (Fin 0)\<rparr>"


text \<open>
  The record that the reduction leaves for a cluster in a tile: the ten moment terms
  added over the pixels \<open>ps\<close> of the cluster. \<open>two_cluster_scratch\<close> is the scratch memory
  of one tile and two clusters (pitch 11).
\<close>

definition tile_record :: "uchar4 list \<Rightarrow> nat \<Rightarrow> fl" where
  "tile_record ps i = sum_list (map (\<lambda>p. get_component p i) ps)"

definition two_cluster_scratch :: "uchar4 list \<Rightarrow> uchar4 list \<Rightarrow> nat \<Rightarrow> fl" where
  "two_cluster_scratch ps0 ps1 a =
     (if a < 11 then tile_record ps0 a
      else if a < 22 then tile_record ps1 (a - 11)
      else Fin 0)"

definition corner :: "8 word \<Rightarrow> 8 word \<Rightarrow> 8 word \<Rightarrow> uchar4" where
  "corner r g b = \<lparr>uchar4_x = r, uchar4_y = g, uchar4_z = b, uchar4_w = 0\<rparr>"




text \<open>
  Four pixels whose first and third channel are equal: mean (1, 1, 1), variance 1 in every
  channel, covariance 1 between the first and the third channel and 0 otherwise. They all
  belong to cluster 0 and cluster 1 is empty; \<open>skew_table\<close> is the table after the
  finalization of the first round of \<^verbatim>\<open>GMMInitialize\<close> (two clusters, one tile, no inversion).
\<close>

definition skew_pixels :: "uchar4 list" where
  "skew_pixels = [corner 0 0 0, corner 2 0 2, corner 0 2 0, corner 2 2 2]"

definition skew_table :: "nat \<Rightarrow> fl" where
  "skew_table =
     GMMFinalize_launch False 2 (\<lambda>a. Fin 0) (two_cluster_scratch skew_pixels []) 11 1 (\<lambda>a. Fin 0)"

text \<open>The unit vectors along (1, 1, 1) and along (1, 0, 1).\<close>

definition diagonal_direction :: float3 where
  "diagonal_direction = make_float3 (Fin (1 / sqrt 3)) (Fin (1 / sqrt 3)) (Fin (1 / sqrt 3))"

definition principal_direction :: float3 where
  "principal_direction = make_float3 (Fin (1 / sqrt 2)) (Fin 0) (Fin (1 / sqrt 2))"

text \<open>
  Two clusters of two pixels each that differ in the first channel only. By the
  subtracted \<open>epsilon\<close> their covariance is the diagonal matrix of 24.999, -0.001, -0.001:
  the determinant is positive and the inverse has the entries -1000.
\<close>

definition flat_pixels :: "8 word \<Rightarrow> uchar4 list" where
  "flat_pixels g = [corner 10 g 30, corner 20 g 30]"

definition flat_table :: "nat \<Rightarrow> fl" where
  "flat_table =
     GMMFinalize_launch True 2 (\<lambda>a. Fin 0)
       (two_cluster_scratch (flat_pixels 20) (flat_pixels 40)) 11 1 (\<lambda>a. Fin 0)"

definition flat_image :: "nat \<Rightarrow> uchar4" where
  "flat_image p = (flat_pixels 20 @ flat_pixels 40) ! (p mod 4)"

section \<open>The warp reduction adds up the 32 lanes\<close>

lemma rot1: "l < 32 \<Longrightarrow> a < 32 \<Longrightarrow> ((l + a) mod 32 + 32 - l) mod 32 = (a::nat)"
  by (cases "l + a < 32") (simp_all add: mod_if)

lemma rot2: 
  assumes "l < 32" "a < 32" shows "(l + (a + 32 - l) mod 32) mod 32 = (a::nat)"
proof (cases "l \<le> a")
  case True
  then have "a + 32 - l = (a - l) + 32" by simp
  then have "(a + 32 - l) mod 32 = ((a - l) + 32) mod 32" by (rule arg_cong)
  also have "\<dots> = a - l" using assms by simp
  finally show ?thesis using True assms by simp
next
  case False
  then have "(a + 32 - l) mod 32 = a + 32 - l" using assms by simp
  moreover have "l + (a + 32 - l) = a + 32" using assms by simp
  ultimately show ?thesis using assms by simp
qed

lemma rot_bij: "l < 32 \<Longrightarrow> bij_betw (\<lambda>c. (l + c) mod 32) {0..<32::nat} {0..<32}"
  by (rule bij_betw_byWitness [where f' = "\<lambda>x. (x + 32 - l) mod 32"])
     (auto simp: rot1 rot2)

lemma warp_reduce_rot:
  fixes s :: "nat \<Rightarrow> 'a::comm_monoid_add"
  shows "warp_reduce (+) s l = sum_list (map (\<lambda>c. s ((l + c) mod 32)) [1..<32]) + s l"
  unfolding warp_reduce_def warp_step_def
  by (simp add: upt_rec mod_simps ac_simps)

lemma warp_reduce_sum:
  fixes s :: "nat \<Rightarrow> 'a::comm_monoid_add"
  assumes "l < 32"
  shows "warp_reduce (+) s l = sum s {0..<32}"
proof -
  have "warp_reduce (+) s l = sum_list (map (\<lambda>c. s ((l + c) mod 32)) [1..<32]) + s ((l + 0) mod 32)"
    using assms by (simp add: warp_reduce_rot)
  also have "\<dots> = sum_list (map (\<lambda>c. s ((l + c) mod 32)) [0..<32])"
    by (subst (2) upt_rec) (simp add: add.commute)
  also have "\<dots> = sum (\<lambda>c. s ((l + c) mod 32)) {0..<32}"
    by (simp add: interv_sum_list_conv_sum_set_nat)
  also have "\<dots> = sum s {0..<32}"
    by (rule sum.reindex_bij_betw [OF rot_bij [OF assms]])
  finally show ?thesis .
qed

lemma stride_set:
  assumes "j < N"
  shows "{n. j \<le> n \<and> n < N \<and> n mod 128 = j mod 128}
        = insert j {n. j + 128 \<le> n \<and> n < N \<and> n mod 128 = j mod (128::nat)}"
proof (rule set_eqI)
  fix n :: nat
  have "n = j \<or> j + 128 \<le> n" if "j \<le> n" "n mod 128 = j mod 128"
  proof (rule ccontr)
    assume "\<not> (n = j \<or> j + 128 \<le> n)"
    with that have lt: "j < n" "n - j < 128" by auto
    from that have "(n - j) mod 128 = 0"
      by (simp add: mod_eq_dvd_iff_nat) 
    with lt show False by simp
  qed
  with assms show "n \<in> {n. j \<le> n \<and> n < N \<and> n mod 128 = j mod 128}
          \<longleftrightarrow> n \<in> insert j {n. j + 128 \<le> n \<and> n < N \<and> n mod 128 = j mod 128}"
    by auto
qed

lemma partial_loop_sum:
  "partial_loop gp p i N j acc = acc + sum (\<lambda>n. gp (n * p + i)) {n. j \<le> n \<and> n < N \<and> n mod 128 = j mod 128}"
proof (induction gp p i N j acc rule: partial_loop.induct)
  case (1 gp p i N j acc)
  show ?case
  proof (cases "j < N")
    case False
    then have e: "{n. j \<le> n \<and> n < N \<and> n mod 128 = j mod 128} = {}" by auto
    have "partial_loop gp p i N j acc = acc"
      using False by (subst partial_loop.simps) simp
    then show ?thesis unfolding e by simp
  next
    case True
    have fin: "finite {n. j + 128 \<le> n \<and> n < N \<and> n mod 128 = j mod 128}" by simp
    have notin: "j \<notin> {n. j + 128 \<le> n \<and> n < N \<and> n mod 128 = j mod 128}" by simp
    have "partial_loop gp p i N j acc = partial_loop gp p i N (j + thread_N) (acc + gp (j * p + i))"
      using True by (subst partial_loop.simps) simp
    also have "\<dots> = acc + gp (j * p + i)
         + sum (\<lambda>n. gp (n * p + i)) {n. j + 128 \<le> n \<and> n < N \<and> n mod 128 = j mod 128}"
      using 1 [OF True] by (simp add: thread_N_def warp_N_def)
    also have "\<dots> = acc + sum (\<lambda>n. gp (n * p + i)) {n. j \<le> n \<and> n < N \<and> n mod 128 = j mod 128}"
      unfolding stride_set [OF True] by (simp add: sum.insert [OF fin notin] add.assoc)
    finally show ?thesis .
  qed
qed

section \<open>The reduction over the tiles\<close>

lemma and31_lt: "(t::nat) AND 31 < 32"
proof -
  have "t AND 31 = t mod 32"
    using take_bit_eq_mask [of 5 t] by (simp add: take_bit_eq_mod mask_eq_exp_minus_1)
  then show ?thesis by simp
qed

lemma thread_set:
  fixes t :: nat
  assumes "t < 128"
  shows "{n. t \<le> n \<and> n < N \<and> n mod 128 = t mod 128} = {n \<in> {..<N}. n mod 128 = t}"
proof -
  have "t \<le> n" if "n mod 128 = t" for n :: nat
  proof -
    have "n mod 128 \<le> n" by (rule mod_less_eq_dividend)
    with that show ?thesis by simp
  qed
  with assms show ?thesis by auto
qed

lemma warp_sum_eq:
  assumes "w < 4"
  shows "warp_sum gp p i N (32 * w)
     = sum (\<lambda>t. sum (\<lambda>n. gp (n * p + i)) {n \<in> {..<N}. n mod 128 = t}) {w * 32 ..< w * 32 + 32}"
proof -
  have d: "drop_bit 5 (32 * w) = w"
    by (simp add: drop_bit_eq_div)
  have "warp_sum gp p i N (32 * w)
      = sum (\<lambda>lane. partial_loop gp p i N (32 * w + lane) (Fin 0)) {0..<32}"
    unfolding warp_sum_def d by (rule warp_reduce_sum [OF and31_lt])
  also have "\<dots> = sum (\<lambda>lane. sum (\<lambda>n. gp (n * p + i)) {n \<in> {..<N}. n mod 128 = 32 * w + lane}) {0..<32}"
  proof (rule sum.cong [OF refl])
    fix lane :: nat assume "lane \<in> {0..<32}"
    with assms have lt: "32 * w + lane < 128" by simp
    show "partial_loop gp p i N (32 * w + lane) (Fin 0)
        = sum (\<lambda>n. gp (n * p + i)) {n \<in> {..<N}. n mod 128 = 32 * w + lane}"
      using partial_loop_sum [of gp p i N "32 * w + lane" "Fin 0"] thread_set [OF lt, of N]
            add_0 [of "sum (\<lambda>n. gp (n * p + i)) {n \<in> {..<N}. n mod 128 = 32 * w + lane}"]
      by (simp only: zero_fl_def)
  qed
  also have "\<dots> = sum (\<lambda>t. sum (\<lambda>n. gp (n * p + i)) {n \<in> {..<N}. n mod 128 = t}) {w * 32 ..< w * 32 + 32}"
    using sum.shift_bounds_nat_ivl [of "\<lambda>t. sum (\<lambda>n. gp (n * p + i)) {n \<in> {..<N}. n mod 128 = t}" 0 "w * 32" 32]
    by (simp add: mult.commute add.commute)
  finally show ?thesis .
qed

lemma block_sum_eq: "block_sum gp p N i = sum (\<lambda>n. gp (n * p + i)) {..<N}"
proof -
  let ?P = "\<lambda>t. sum (\<lambda>n. gp (n * p + i)) {n \<in> {..<N}. n mod 128 = t}"
  have "block_sum gp p N i = warp_sum gp p i N (32 * 0) + warp_sum gp p i N (32 * 1)
       + warp_sum gp p i N (32 * 2) + warp_sum gp p i N (32 * 3)"
    by (simp add: block_sum_def s_final_def warp_N_def upt_rec)
  also have "\<dots> = sum ?P {0 * 32 ..< 0 * 32 + 32} + sum ?P {1 * 32 ..< 1 * 32 + 32}
       + sum ?P {2 * 32 ..< 2 * 32 + 32} + sum ?P {3 * 32 ..< 3 * 32 + 32}"
    by (simp only: warp_sum_eq [of 0] warp_sum_eq [of 1] warp_sum_eq [of 2] warp_sum_eq [of 3])
  also have "\<dots> = (\<Sum>m\<in>{0, 1, 2, 3}. sum ?P {m * 32 ..< m * 32 + 32})"
    by (simp add: add.assoc)
  also have "\<dots> = (\<Sum>m<4. sum ?P {m * 32 ..< m * 32 + 32})"
    by (rule sum.cong) auto
  also have "\<dots> = sum ?P {..<4 * 32}"
    by (rule sum.nat_group)
  also have "\<dots> = sum (\<lambda>n. gp (n * p + i)) {..<N}"
    by (rule sum.group) auto
  finally show ?thesis .
qed

section \<open>Finalization\<close>

lemma fl_mult_1_left [simp]: "Fin 1 * a = a"
  by (cases a) simp_all

lemma fl_diff_0 [simp]: "a - Fin 0 = a"
  by (cases a) (simp_all add: minus_fl_def)

lemma fl_diff_Fin [simp]: "Fin a - Fin b = Fin (a - b)"
  by (simp add: minus_fl_def)

lemma upt_10: "[0..<10] = [0, 1, 2, 3, 4, 5, 6, 7, 8, 9]"
  by (simp add: upt_rec)

lemma upt_5: "[0..<5] = [0, 1, 2, 3, 4]"
  by (simp add: upt_rec)

lemma upt_6: "[0..<6] = [0, 1, 2, 3, 4, 5]"
  by (simp add: upt_rec)

lemma upt_11: "[0..<11] = [0, 1, 2, 3, 4, 5, 6, 7, 8, 9, 10]"
  by (simp add: upt_rec)

lemma finalize_moments_slots:
  fixes raw :: "nat \<Rightarrow> fl" and f0 :: "nat \<Rightarrow> fl"
  defines "nf \<equiv> norm_factor_of (raw 0)"
  defines "m \<equiv> finalize_moments raw f0"
  shows "m 0 = raw 0"
    and "m (Suc 0) = nf * raw (Suc 0)"
    and "m 2 = nf * raw 2"
    and "m 3 = nf * raw 3"
    and "m 4 = nf * raw 4 - (m (Suc 0) * m (Suc 0) + epsilon)"
    and "m 5 = nf * raw 5 - m (Suc 0) * m 2"
    and "m 6 = nf * raw 6 - m (Suc 0) * m 3"
    and "m 7 = nf * raw 7 - (m 2 * m 2 + epsilon)"
    and "m 8 = nf * raw 8 - m 2 * m 3"
    and "m 9 = nf * raw 9 - (m 3 * m 3 + epsilon)"
  unfolding m_def nf_def norm_factor_of_def finalize_moments_def upt_10
  by (simp_all add: finalize_step_def get_constant_def Let_def)

lemma finalize_moments_frame: "10 \<le> i \<Longrightarrow> finalize_moments raw f0 i = f0 i"
  unfolding finalize_moments_def upt_10
  by (simp add: finalize_step_def Let_def)

lemma det_index [simp]:
  "unpack_index det_indices 0 0 = 4" "unpack_index det_indices 0 (Suc 0) = 5"
  "unpack_index det_indices 0 2 = 6" "unpack_index det_indices 0 3 = 4"
  "unpack_index det_indices 0 4 = 9" "unpack_index det_indices (Suc 0) 0 = 7"
  "unpack_index det_indices (Suc 0) (Suc 0) = 6" "unpack_index det_indices (Suc 0) 2 = 6"
  "unpack_index det_indices (Suc 0) 3 = 8" "unpack_index det_indices (Suc 0) 4 = 5"
  "unpack_index det_indices 2 0 = 9" "unpack_index det_indices 2 (Suc 0) = 8"
  "unpack_index det_indices 2 2 = 7" "unpack_index det_indices 2 3 = 8"
  "unpack_index det_indices 2 4 = 5"
  by (simp_all add: unpack_index_def det_indices_def)

lemma inv_index [simp]:
  "unpack_index inv_indices 0 0 = 7" "unpack_index inv_indices 0 (Suc 0) = 6"
  "unpack_index inv_indices 0 2 = 5" "unpack_index inv_indices 0 3 = 4"
  "unpack_index inv_indices 0 4 = 5" "unpack_index inv_indices 0 5 = 4"
  "unpack_index inv_indices (Suc 0) 0 = 9" "unpack_index inv_indices (Suc 0) (Suc 0) = 8"
  "unpack_index inv_indices (Suc 0) 2 = 8" "unpack_index inv_indices (Suc 0) 3 = 9"
  "unpack_index inv_indices (Suc 0) 4 = 6" "unpack_index inv_indices (Suc 0) 5 = 7"
  "unpack_index inv_indices 2 0 = 8" "unpack_index inv_indices 2 (Suc 0) = 5"
  "unpack_index inv_indices 2 2 = 6" "unpack_index inv_indices 2 3 = 6"
  "unpack_index inv_indices 2 4 = 4" "unpack_index inv_indices 2 5 = 5"
  "unpack_index inv_indices 3 0 = 8" "unpack_index inv_indices 3 (Suc 0) = 9"
  "unpack_index inv_indices 3 2 = 7" "unpack_index inv_indices 3 3 = 6"
  "unpack_index inv_indices 3 4 = 8" "unpack_index inv_indices 3 5 = 5"
  by (simp_all add: unpack_index_def inv_indices_def)

lemma finalize_det_low: "i < 10 \<Longrightarrow> finalize_det m i = m i"
  unfolding finalize_det_def upt_5 by (simp add: Let_def)

lemma finalize_det_10:
  "finalize_det m 10 = sym3_det (m 4) (m 5) (m 6) (m 7) (m 8) (m 9)"
  unfolding finalize_det_def upt_5 sym3_det_def by (simp add: Let_def)

lemma finalize_inv_10: "finalize_inv g 10 = g 10"
  unfolding finalize_inv_def upt_6 by simp

lemma finalize_inv_low: "i < 4 \<Longrightarrow> finalize_inv g i = g i"
  unfolding finalize_inv_def upt_6 by simp

lemma finalize_inv_entries:
  "map (finalize_inv g) [4, 5, 6, 7, 8, 9] =
     (if fgt (g 10) (Fin 0)
      then map (\<lambda>c. c / g 10) (sym3_cofactors (g 4) (g 5) (g 6) (g 7) (g 8) (g 9))
      else [Fin 0, Fin 0, Fin 0, Fin 0, Fin 0, Fin 0])"
  unfolding finalize_inv_def upt_6 sym3_cofactors_def inv_temp_def by simp

lemma fold_store_hit:
  "t < n \<Longrightarrow> fold (\<lambda>t g. g(b + t := f t)) [0..<n] g0 (b + t) = f t"
  by (induction n) auto

lemma fold_store_miss:
  "(\<And>t. t < n \<Longrightarrow> a \<noteq> b + t) \<Longrightarrow> fold (\<lambda>t g. g(b + t := f t)) [0..<n] g0 a = g0 a"
  by (induction n) auto

lemma GMMFinalizeKernel_slot:
  "t < 11 \<Longrightarrow> GMMFinalizeKernel invertSigma gmm gmm_scratch gmm_pitch N final_gmm0 blockIdx
       (blockIdx * gmm_pitch + t)
     = finalize_block invertSigma (cluster_sums gmm_scratch gmm_pitch N blockIdx) final_gmm0 t"
  unfolding GMMFinalizeKernel_def Let_def by (rule fold_store_hit)

lemma cluster_sums_one_tile:
  "cluster_sums gmm_scratch gmm_pitch (Suc 0) b i = gmm_scratch (b * gmm_pitch + i)"
  by (simp add: cluster_sums_def block_sum_eq)

lemma example_sums:
  "map (cluster_sums example_scratch 11 1 0) [0, 1, 2, 3, 4, 5, 6, 7, 8, 9]
     = map Fin [2, 30, 60, 80, 500, 1000, 1300, 2000, 2600, 3400]"
  by (simp add: cluster_sums_one_tile example_scratch_def get_component_def
        example_pixel_a_def example_pixel_b_def float_of_nat_def)

lemma example_moments:
  "map (finalize_moments (cluster_sums example_scratch 11 1 0) f0) [0, 1, 2, 3, 4, 5, 6, 7, 8, 9]
     = map Fin [2, 15, 30, 40, 24999 / 1000, 50, 50, 99999 / 1000, 100, 99999 / 1000]"
  using example_sums
  by (simp add: finalize_moments_slots norm_factor_of_def epsilon_def)

lemma finalize_block_False_low:
  "i < 10 \<Longrightarrow> finalize_block False raw f0 i = finalize_moments raw f0 i"
  by (simp add: finalize_block_def finalize_det_low)

lemma finalize_block_10:
  "finalize_block invertSigma raw f0 10 =
     sym3_det (finalize_moments raw f0 4) (finalize_moments raw f0 5) (finalize_moments raw f0 6)
              (finalize_moments raw f0 7) (finalize_moments raw f0 8) (finalize_moments raw f0 9)"
  by (cases invertSigma) (simp_all add: finalize_block_def finalize_inv_10 finalize_det_10 Let_def)

lemma finalize_block_True_entries:
  "map (finalize_block True raw f0) [4, 5, 6, 7, 8, 9] =
     (let fg = finalize_block False raw f0
      in if fgt (fg 10) (Fin 0)
         then map (\<lambda>c. c / fg 10) (sym3_cofactors (fg 4) (fg 5) (fg 6) (fg 7) (fg 8) (fg 9))
         else [Fin 0, Fin 0, Fin 0, Fin 0, Fin 0, Fin 0])"
  using finalize_inv_entries [of "finalize_det (finalize_moments raw f0)"]
  by (simp add: finalize_block_def Let_def)

lemma example_cov:
  "map (finalize_block False (cluster_sums example_scratch 11 1 0) f0) [4, 5, 6, 7, 8, 9, 10]
     = map Fin [24999 / 1000, 50, 50, 99999 / 1000, 100, 99999 / 1000, 224999 / 1000000000]"
  using example_moments [of f0]
  by (simp add: finalize_block_10 finalize_block_False_low sym3_det_def)

lemma empty_cluster_sums:
  "map (cluster_sums example_scratch 11 1 1) [0, 1, 2, 3, 4, 5, 6, 7, 8, 9]
     = map Fin [0, 0, 0, 0, 0, 0, 0, 0, 0, 0]"
  by (simp add: cluster_sums_one_tile example_scratch_def)

lemma empty_cluster_moments:
  "map (finalize_moments (cluster_sums example_scratch 11 1 1) f0) [0, 1, 2, 3, 4, 5, 6, 7, 8, 9]
     = map Fin [0, 0, 0, 0, - (1 / 1000), 0, 0, - (1 / 1000), 0, - (1 / 1000)]"
  using empty_cluster_sums
  by (simp add: finalize_moments_slots norm_factor_of_def epsilon_def)

lemma empty_cluster_cov:
  "map (finalize_block False (cluster_sums example_scratch 11 1 1) f0) [4, 5, 6, 7, 8, 9, 10]
     = map Fin [- (1 / 1000), 0, 0, - (1 / 1000), 0, - (1 / 1000), - (1 / 1000000000)]"
  using empty_cluster_moments [of f0]
  by (simp add: finalize_block_10 finalize_block_False_low sym3_det_def)


text \<open>
  Claim C9. In finalization with inversion requested, the determinant is the closed form
  of the symmetric 3 x 3 matrix; when it is strictly positive the six entries stored in
  slots 4..9 are the cofactors divided by the determinant, and in every other case
  (determinant zero, negative or NaN) all six are zero. The kernel has no error path.
\<close>

theorem inverse_covariance_guarded:
  "let fg = finalize_block False (cluster_sums gmm_scratch gmm_pitch N b) final_gmm0;
       det = fg 10;
       out = GMMFinalizeKernel True gmm gmm_scratch gmm_pitch N final_gmm0 b
   in det = sym3_det (fg 4) (fg 5) (fg 6) (fg 7) (fg 8) (fg 9)
      \<and> out (b * gmm_pitch + 10) = det
      \<and> map (\<lambda>t. out (b * gmm_pitch + t)) [4, 5, 6, 7, 8, 9] =
          (if fgt det (Fin 0)
           then map (\<lambda>c. c / det) (sym3_cofactors (fg 4) (fg 5) (fg 6) (fg 7) (fg 8) (fg 9))
           else [Fin 0, Fin 0, Fin 0, Fin 0, Fin 0, Fin 0])"
proof -
  let ?raw = "cluster_sums gmm_scratch gmm_pitch N b"
  let ?out = "GMMFinalizeKernel True gmm gmm_scratch gmm_pitch N final_gmm0 b"
  have slot: "?out (b * gmm_pitch + t) = finalize_block True ?raw final_gmm0 t" if "t < 11" for t
    using that by (rule GMMFinalizeKernel_slot)
  have det: "finalize_block False ?raw final_gmm0 10
      = sym3_det (finalize_block False ?raw final_gmm0 4) (finalize_block False ?raw final_gmm0 5)
          (finalize_block False ?raw final_gmm0 6) (finalize_block False ?raw final_gmm0 7)
          (finalize_block False ?raw final_gmm0 8) (finalize_block False ?raw final_gmm0 9)"
    by (simp add: finalize_block_10 finalize_block_False_low)
  have d10: "?out (b * gmm_pitch + 10) = finalize_block False ?raw final_gmm0 10"
    by (simp add: slot finalize_block_10)
  have "map (\<lambda>t. ?out (b * gmm_pitch + t)) [4, 5, 6, 7, 8, 9]
      = map (finalize_block True ?raw final_gmm0) [4, 5, 6, 7, 8, 9]"
    by (simp add: slot)
  then show ?thesis
    unfolding Let_def finalize_block_True_entries using det d10 by (simp add: Let_def)
qed

theorem inverse_covariance_guarded_witness:
  "map (\<lambda>t. GMMFinalizeKernel True (\<lambda>a. Fin 0) example_scratch 11 1 (\<lambda>a. Fin 0) 0 (0 * 11 + t))
       [4, 5, 6, 7, 8, 9]
     = map Fin [- (199999000 / 224999), 50000000 / 224999, 50000000 / 224999,
                - (124999000 / 224999), 100000000 / 224999, - (124999000 / 224999)]
   \<and> map (\<lambda>t. GMMFinalizeKernel True (\<lambda>a. Fin 0) example_scratch 11 1 (\<lambda>a. Fin 0) 1 (1 * 11 + t))
       [4, 5, 6, 7, 8, 9]
     = [Fin 0, Fin 0, Fin 0, Fin 0, Fin 0, Fin 0]"
  using inverse_covariance_guarded [of example_scratch 11 1 0 "\<lambda>a. Fin 0" "\<lambda>a. Fin 0"]
        inverse_covariance_guarded [of example_scratch 11 1 1 "\<lambda>a. Fin 0" "\<lambda>a. Fin 0"]
        example_cov [of "\<lambda>a. Fin 0"] empty_cluster_cov [of "\<lambda>a. Fin 0"]
  by (simp add: Let_def sym3_cofactors_def sym3_det_def)

section \<open>GMMcommonTerm\<close>

lemma fold_write_hit:
  assumes "t \<in> set ts" "ok t"
    and "\<And>t'. t' \<in> set ts \<Longrightarrow> ok t' \<Longrightarrow> addr t' = addr t \<Longrightarrow> val t' = val t"
  shows "fold (\<lambda>t g. if ok t then g(addr t := val t) else g) ts g0 (addr t) = val t"
  using assms
proof (induction ts rule: rev_induct)
  case Nil
  then show ?case by simp
next
  case (snoc x xs)
  show ?case
  proof (cases "ok x \<and> addr x = addr t")
    case True
    then have "val x = val t" using snoc.prems(3) [of x] by simp
    with True show ?thesis by simp
  next
    case False
    with snoc.prems(1,2) have mem: "t \<in> set xs" by auto
    have "fold (\<lambda>t g. if ok t then g(addr t := val t) else g) xs g0 (addr t) = val t"
    proof (rule snoc.IH [OF mem snoc.prems(2)])
      fix t' assume "t' \<in> set xs" "ok t'" "addr t' = addr t"
      then show "val t' = val t" using snoc.prems(3) [of t'] by simp
    qed
    with False show ?thesis by auto
  qed
qed

lemma fold_write_miss:
  assumes "\<And>t. t \<in> set ts \<Longrightarrow> ok t \<Longrightarrow> addr t \<noteq> a"
  shows "fold (\<lambda>t g. if ok t then g(addr t := val t) else g) ts g0 a = g0 a"
  using assms by (induction ts rule: rev_induct) auto

lemma product_mem:
  "t \<in> set (List.product [0..<m] [0..<n]) \<longleftrightarrow> fst t < m \<and> snd t < n"
  by (simp only: set_product set_upt mem_Times_iff atLeastLessThan_iff) simp

lemma or_bit0: "y < 2 \<Longrightarrow> (x * 2) OR y = 2 * x + (y::nat)"
proof -
  assume "y < 2"
  then consider "y = 0" | "y = 1" by linarith
  then show ?thesis
  proof cases
    case 1 then show ?thesis by simp
  next
    case 2
    have "(x * 2) OR (1::nat) = x * 2 + of_bool (even (x * 2))" by (rule or_one_eq)
    with 2 show ?thesis by simp
  qed
qed

lemma commonTerm_sum:
  assumes "gmmK \<le> 32" "y < 2" "x < 32"
  shows "warp_reduce (+) (commonTerm_gmm_n gmmK gmm gmm_pitch y) x
           = mixture_pixels gmmK gmm gmm_pitch y"
proof -
  have "warp_reduce (+) (commonTerm_gmm_n gmmK gmm gmm_pitch y) x
      = sum (commonTerm_gmm_n gmmK gmm gmm_pitch y) {0..<32}"
    by (rule warp_reduce_sum [OF assms(3)])
  also have "\<dots> = sum (commonTerm_gmm_n gmmK gmm gmm_pitch y) {..<gmmK}"
  proof (rule sum.mono_neutral_right)
    show "{..<gmmK} \<subseteq> {0..<32}" using assms(1) by auto
    show "\<forall>i\<in>{0..<32} - {..<gmmK}. commonTerm_gmm_n gmmK gmm gmm_pitch y i = 0"
      by (simp add: commonTerm_gmm_n_def zero_fl_def)
    show "finite {0..<32::nat}" by (rule finite_atLeastLessThan)
  qed
  also have "\<dots> = mixture_pixels gmmK gmm gmm_pitch y"
    unfolding mixture_pixels_def
    by (rule sum.cong) (simp_all add: commonTerm_gmm_n_def or_bit0 [OF assms(2)])
  finally show ?thesis .
qed

lemma commonTerm_thread_eq:
  assumes "gmmK \<le> 32" "thread \<in> set (List.product [0..<32] [0..<2])"
  shows "commonTerm_thread gmmK gmm0 gmm_pitch thread g
     = (if fst thread < gmmK
        then g((2 * fst thread + snd thread) * gmm_pitch + 10 := common_term_of gmmK gmm0 gmm_pitch thread)
        else g)"
proof -
  from assms(2) have x: "fst thread < 32" and y: "snd thread < 2"
    by (simp_all only: product_mem)
  show ?thesis
    unfolding commonTerm_thread_def Let_def common_term_of_def
    by (simp add: commonTerm_sum [OF assms(1) y x] or_bit0 [OF y] commonTerm_gmm_n_def)
qed

lemma GMMcommonTerm_fold:
  assumes "gmmK \<le> 32"
  shows "GMMcommonTerm gmmK gmm gmm_pitch
     = fold (\<lambda>t g. if fst t < gmmK
                     then g((2 * fst t + snd t) * gmm_pitch + 10 := common_term_of gmmK gmm gmm_pitch t)
                     else g) (List.product [0..<32] [0..<2]) gmm"
  unfolding GMMcommonTerm_def
proof (rule fold_cong [OF refl refl])
  fix t assume "t \<in> set (List.product [0..<32] [0..<2])"
  then show "commonTerm_thread gmmK gmm gmm_pitch t
      = (\<lambda>g. if fst t < gmmK
               then g((2 * fst t + snd t) * gmm_pitch + 10 := common_term_of gmmK gmm gmm_pitch t)
               else g)"
    by (intro ext commonTerm_thread_eq [OF assms])
qed

lemma cluster_addr_inj:
  assumes "0 < gmm_pitch" "y < 2" "y' < 2"
    and "(2 * x' + y') * gmm_pitch + 10 = (2 * x + y) * gmm_pitch + (10::nat)"
  shows "x' = x \<and> y' = y"
proof -
  from assms(4) have "(2 * x' + y') * gmm_pitch = (2 * x + y) * gmm_pitch" by simp
  with assms(1) have "2 * x' + y' = 2 * x + y" by simp
  with assms(2,3) show ?thesis by arith
qed

lemma GMMcommonTerm_slot:
  assumes "gmmK \<le> 32" "x < gmmK" "y < 2" "0 < gmm_pitch"
  shows "GMMcommonTerm gmmK gmm gmm_pitch ((2 * x + y) * gmm_pitch + 10)
           = common_term_of gmmK gmm gmm_pitch (x, y)"
proof -
  have mem: "(x, y) \<in> set (List.product [0..<32] [0..<2])"
    using assms by (simp only: product_mem) simp
  have "fold (\<lambda>t g. if fst t < gmmK
                     then g((2 * fst t + snd t) * gmm_pitch + 10 := common_term_of gmmK gmm gmm_pitch t)
                     else g) (List.product [0..<32] [0..<2]) gmm
          ((2 * fst (x, y) + snd (x, y)) * gmm_pitch + 10)
        = common_term_of gmmK gmm gmm_pitch (x, y)"
  proof (rule fold_write_hit [where ok = "\<lambda>t. fst t < gmmK"
          and addr = "\<lambda>t. (2 * fst t + snd t) * gmm_pitch + 10"
          and val = "common_term_of gmmK gmm gmm_pitch", OF mem])
    show "fst (x, y) < gmmK" using assms by simp
  next
    fix t' assume t': "t' \<in> set (List.product [0..<32] [0..<2])"
      and eq: "(2 * fst t' + snd t') * gmm_pitch + 10 = (2 * fst (x, y) + snd (x, y)) * gmm_pitch + 10"
    from t' have "snd t' < 2"
      by (simp only: product_mem)
    with cluster_addr_inj [OF assms(4) assms(3) this, of "fst t'" x] eq
    have "t' = (x, y)" by (cases t') auto
    then show "common_term_of gmmK gmm gmm_pitch t' = common_term_of gmmK gmm gmm_pitch (x, y)"
      by simp
  qed
  then show ?thesis by (simp add: GMMcommonTerm_fold [OF assms(1)])
qed

lemma GMMcommonTerm_frame:
  assumes "gmmK \<le> 32"
    and "\<And>x y. x < gmmK \<Longrightarrow> y < 2 \<Longrightarrow> a \<noteq> (2 * x + y) * gmm_pitch + 10"
  shows "GMMcommonTerm gmmK gmm gmm_pitch a = gmm a"
  unfolding GMMcommonTerm_fold [OF assms(1)]
proof (rule fold_write_miss)
  fix t assume "t \<in> set (List.product [0..<32] [0..<2])" and "fst t < gmmK"
  then have "fst t < gmmK" "snd t < 2"
    by (simp_all only: product_mem)
  then show "(2 * fst t + snd t) * gmm_pitch + 10 \<noteq> a"
    using assms(2) [of "fst t" "snd t"] by simp
qed

text \<open>
  Claim C6, as the code has it. For every cluster \<open>2 * x + y\<close> below \<open>2 * gmmK\<close>,
  \<^verbatim>\<open>GMMcommonTerm\<close> replaces slot 10 (the determinant) by the cluster's pixel count
  divided by the product of the square root of the determinant and the pixel count of
  all clusters of the same top-level mixture \<open>y\<close>, that is, of all clusters with the same
  index parity; every other element of the table is left as it was.
\<close>

theorem common_term_per_mixture:
  assumes "gmmK \<le> 32" and "10 < gmm_pitch"
  shows "(\<forall>x y. x < gmmK \<and> y < 2 \<longrightarrow>
            GMMcommonTerm gmmK gmm gmm_pitch ((2 * x + y) * gmm_pitch + 10)
              = gmm ((2 * x + y) * gmm_pitch)
                  / (sqrtf (gmm ((2 * x + y) * gmm_pitch + 10))
                       * (\<Sum>x'<gmmK. gmm ((2 * x' + y) * gmm_pitch))))
       \<and> (\<forall>a. (\<forall>x y. x < gmmK \<and> y < 2 \<longrightarrow> a \<noteq> (2 * x + y) * gmm_pitch + 10) \<longrightarrow>
            GMMcommonTerm gmmK gmm gmm_pitch a = gmm a)"
proof (intro conjI allI impI)
  fix x y :: nat assume "x < gmmK \<and> y < 2"
  then show "GMMcommonTerm gmmK gmm gmm_pitch ((2 * x + y) * gmm_pitch + 10)
              = gmm ((2 * x + y) * gmm_pitch)
                  / (sqrtf (gmm ((2 * x + y) * gmm_pitch + 10))
                       * (\<Sum>x'<gmmK. gmm ((2 * x' + y) * gmm_pitch)))"
    using GMMcommonTerm_slot [of gmmK x y gmm_pitch gmm] assms
    by (simp add: common_term_of_def mixture_pixels_def)
next
  fix a assume "\<forall>x y. x < gmmK \<and> y < 2 \<longrightarrow> a \<noteq> (2 * x + y) * gmm_pitch + 10"
  then show "GMMcommonTerm gmmK gmm gmm_pitch a = gmm a"
    by (intro GMMcommonTerm_frame assms) simp
qed

lemma sum_lessThan_4: "(\<Sum>x<(4::nat). f x) = f 0 + f 1 + f 2 + (f 3 :: fl)"
  by (simp add: eval_nat_numeral)

theorem common_term_per_mixture_witness:
  "GMMcommonTerm 4 (\<lambda>a. Fin 1) 11 ((2 * 0 + 0) * 11 + 10) = Fin (1 / 4)
   \<and> GMMcommonTerm 4 (\<lambda>a. Fin 1) 11 9 = Fin 1"
proof -
  have "(4::nat) \<le> 32" "(10::nat) < 11" by simp_all
  note inst = common_term_per_mixture [OF this, of "\<lambda>a. Fin 1"]
  have "GMMcommonTerm 4 (\<lambda>a. Fin 1) 11 ((2 * 0 + 0) * 11 + 10) = Fin (1 / 4)"
    using inst [THEN conjunct1, rule_format, of 0 0] by (simp add: sum_lessThan_4)
  moreover have "\<forall>x y. x < (4::nat) \<and> y < (2::nat) \<longrightarrow> (9::nat) \<noteq> (2 * x + y) * 11 + 10"
    by auto
  then have "GMMcommonTerm 4 (\<lambda>a. Fin 1) 11 9 = Fin 1"
    using inst [THEN conjunct2, rule_format, of 9] by blast
  ultimately show ?thesis by simp
qed

text \<open>
  With eight clusters of one pixel each and determinant 1, the common term of cluster 0
  is 1/4: the count is divided by the four pixels of its mixture, not by the two pixels
  of a pair of clusters.
\<close>

theorem common_term_pair_counterexample:
  "GMMcommonTerm 4 (\<lambda>a. Fin 1) 11 (0 * 11 + 10) = Fin (1 / 4)
   \<and> pair_common_term (\<lambda>a. Fin 1) 11 0 2 = Fin (1 / 2)
   \<and> pair_common_term (\<lambda>a. Fin 1) 11 0 4 = Fin (1 / 2)
   \<and> pair_common_term (\<lambda>a. Fin 1) 11 0 6 = Fin (1 / 2)"
  using GMMcommonTerm_slot [of 4 0 0 11 "\<lambda>a. Fin 1"]
  by (simp add: common_term_of_def mixture_pixels_def sum_lessThan_4 pair_common_term_def)

section \<open>Empty and small clusters\<close>

lemma GMMFinalizeKernel_frame:
  assumes "\<And>t. t < 11 \<Longrightarrow> a \<noteq> blockIdx * gmm_pitch + t"
  shows "GMMFinalizeKernel invertSigma gmm gmm_scratch gmm_pitch N final_gmm0 blockIdx a = gmm a"
  unfolding GMMFinalizeKernel_def Let_def by (rule fold_store_miss) (rule assms)

lemma GMMFinalize_launch_slot:
  assumes "b < k" "t < 11" "11 \<le> gmm_pitch"
  shows "GMMFinalize_launch invertSigma k gmm gmm_scratch gmm_pitch N final_gmm0 (b * gmm_pitch + t)
     = finalize_block invertSigma (cluster_sums gmm_scratch gmm_pitch N b) final_gmm0 t"
  using assms(1)
proof (induction k)
  case 0
  then show ?case by simp
next
  case (Suc k)
  show ?case
  proof (cases "b = k")
    case True
    then show ?thesis
      by (simp add: GMMFinalize_launch_def GMMFinalizeKernel_slot [OF assms(2)])
  next
    case False
    with Suc.prems have bk: "b < k" by simp
    have ne: "b * gmm_pitch + t \<noteq> k * gmm_pitch + t'" if "t' < 11" for t'
    proof -
      from bk have "Suc b \<le> k" by simp
      then have "Suc b * gmm_pitch \<le> k * gmm_pitch" by (rule mult_le_mono1)
      with assms(2,3) show ?thesis by simp
    qed
    have "GMMFinalize_launch invertSigma (Suc k) gmm gmm_scratch gmm_pitch N final_gmm0 (b * gmm_pitch + t)
        = GMMFinalize_launch invertSigma k gmm gmm_scratch gmm_pitch N final_gmm0 (b * gmm_pitch + t)"
      unfolding GMMFinalize_launch_def
      by (simp add: GMMFinalizeKernel_frame [OF ne])
    with Suc.IH [OF bk] show ?thesis by simp
  qed
qed

lemma GMMFinalizeKernel_cells:
  "map (\<lambda>t. GMMFinalizeKernel invertSigma gmm gmm_scratch gmm_pitch N final_gmm0 b (b * gmm_pitch + t))
       [0, 1, 2, 3, 4, 5, 6, 7, 8, 9, 10]
     = map (finalize_block invertSigma (cluster_sums gmm_scratch gmm_pitch N b) final_gmm0)
        [0, 1, 2, 3, 4, 5, 6, 7, 8, 9, 10]"
proof -
  have s: "GMMFinalizeKernel invertSigma gmm gmm_scratch gmm_pitch N final_gmm0 b (b * gmm_pitch + t)
     = finalize_block invertSigma (cluster_sums gmm_scratch gmm_pitch N b) final_gmm0 t"
    if "t < 11" for t
    using that by (rule GMMFinalizeKernel_slot)
  show ?thesis
    using s [of 0] s [of 1] s [of 2] s [of 3] s [of 4] s [of 5] s [of 6] s [of 7] s [of 8]
          s [of 9] s [of 10]
    by simp
qed

lemma GMMFinalize_launch_cells:
  assumes "b < k" "11 \<le> gmm_pitch"
  shows "map (\<lambda>t. GMMFinalize_launch invertSigma k gmm gmm_scratch gmm_pitch N final_gmm0
                    (b * gmm_pitch + t)) [0, 1, 2, 3, 4, 5, 6, 7, 8, 9, 10]
     = map (finalize_block invertSigma (cluster_sums gmm_scratch gmm_pitch N b) final_gmm0)
        [0, 1, 2, 3, 4, 5, 6, 7, 8, 9, 10]"
proof -
  have s: "GMMFinalize_launch invertSigma k gmm gmm_scratch gmm_pitch N final_gmm0 (b * gmm_pitch + t)
     = finalize_block invertSigma (cluster_sums gmm_scratch gmm_pitch N b) final_gmm0 t"
    if "t < 11" for t
    using assms(1) that assms(2) by (rule GMMFinalize_launch_slot)
  show ?thesis
    using s [of 0] s [of 1] s [of 2] s [of 3] s [of 4] s [of 5] s [of 6] s [of 7] s [of 8]
          s [of 9] s [of 10]
    by simp
qed

lemma fl_NaN_absorb [simp]:
  "a + NaN = NaN" "NaN + a = NaN" "a * NaN = NaN" "NaN * a = NaN"
  "a / NaN = NaN" "NaN / a = NaN" "a - NaN = NaN" "NaN - a = NaN"
  by (cases a; simp add: minus_fl_def)+

lemma GMMTerm_NaN: "gmm 10 = NaN \<Longrightarrow> GMMTerm pixel gmm = NaN"
  by (simp add: GMMTerm_def Let_def)

lemma upt_2: "[0..<2] = [0, 1]"
  by (simp add: upt_rec)

lemma sum_lessThan_1: "(\<Sum>x<(1::nat). f x) = (f 0 :: fl)"
  by simp

lemma empty_cluster_table:
  "map (\<lambda>t. GMMFinalize_launch True 2 (\<lambda>a. Fin 0) example_scratch 11 1 (\<lambda>a. Fin 0) (1 * 11 + t))
       [0, 1, 2, 3, 4, 5, 6, 7, 8, 9, 10]
     = map Fin [0, 0, 0, 0, 0, 0, 0, 0, 0, 0, - (1 / 1000000000)]"
proof -
  have low: "finalize_block True raw f0 i = finalize_moments raw f0 i" if "i < 4" for raw f0 i
    using that by (simp add: finalize_block_def finalize_inv_low finalize_det_low)
  have inv: "map (finalize_block True (cluster_sums example_scratch 11 1 1) (\<lambda>a. Fin 0)) [4, 5, 6, 7, 8, 9]
      = [Fin 0, Fin 0, Fin 0, Fin 0, Fin 0, Fin 0]"
    unfolding finalize_block_True_entries using empty_cluster_cov [of "\<lambda>a. Fin 0"]
    by (simp add: Let_def)
  have det: "finalize_block True (cluster_sums example_scratch 11 1 1) (\<lambda>a. Fin 0) 10
      = Fin (- (1 / 1000000000))"
    using empty_cluster_moments [of "\<lambda>a. Fin 0"]
    by (simp add: finalize_block_10 sym3_det_def)
  have cells: "map (\<lambda>t. GMMFinalize_launch True 2 (\<lambda>a. Fin 0) example_scratch 11 1 (\<lambda>a. Fin 0) (1 * 11 + t))
       [0, 1, 2, 3, 4, 5, 6, 7, 8, 9, 10]
     = map (finalize_block True (cluster_sums example_scratch 11 1 1) (\<lambda>a. Fin 0))
        [0, 1, 2, 3, 4, 5, 6, 7, 8, 9, 10]"
    by (rule GMMFinalize_launch_cells) simp_all
  show ?thesis
    unfolding cells
    using inv det empty_cluster_moments [of "\<lambda>a. Fin 0"]
    by (simp add: low)
qed

lemma mixture_loop_2:
  "mixture_loop pixel 2 gmm p i 0 acc = acc + GMMTerm pixel (\<lambda>a. gmm (i * p + a))"
  by (simp add: mixture_loop.simps MIXTURES_def)

lemma data_term_weights_2:
  "data_term_weights pixel 2 gmm p =
     ((\<lambda>i. Fin 0)(0 := Fin 0 + GMMTerm pixel (\<lambda>a. gmm (0 * p + a)),
                    1 := Fin 0 + GMMTerm pixel (\<lambda>a. gmm (1 * p + a))),
      Fin 0 + (Fin 0 + GMMTerm pixel (\<lambda>a. gmm (0 * p + a)))
        + (Fin 0 + GMMTerm pixel (\<lambda>a. gmm (1 * p + a))))"
  by (simp add: data_term_weights_def MIXTURES_def upt_2 weights_step_def mixture_loop_2 Let_def)

lemma example_table_common_term: "example_table (1 * 11 + 10) = NaN"
proof -
  have "example_table (1 * 11 + 10)
      = GMMcommonTerm 1 (GMMFinalize_launch True 2 (\<lambda>a. Fin 0) example_scratch 11 1 (\<lambda>a. Fin 0)) 11
          ((2 * 0 + 1) * 11 + 10)"
    by (simp add: example_table_def GMMUpdate_finish_def)
  also have "\<dots> = common_term_of 1
        (GMMFinalize_launch True 2 (\<lambda>a. Fin 0) example_scratch 11 1 (\<lambda>a. Fin 0)) 11 (0, 1)"
    by (rule GMMcommonTerm_slot) simp_all
  also have "\<dots> = NaN"
    using empty_cluster_table by (simp add: common_term_of_def)
  finally show ?thesis .
qed

text \<open>
  Claim C4 fails on the code. In the example, cluster 1 has no pixel. Finalization leaves
  \<open>- 10\<^sup>-\<^sup>9\<close> in its determinant slot, \<^verbatim>\<open>GMMcommonTerm\<close> takes the square root of that
  negative number, so the common term of the cluster and its density at a pixel are NaN,
  and so are both values that \<^verbatim>\<open>GMMDataTermKernel\<close> writes for the pixel.
\<close>

theorem empty_cluster_counterexample:
  "GMMFinalize_launch True 2 (\<lambda>a. Fin 0) example_scratch 11 1 (\<lambda>a. Fin 0) (1 * 11 + 10)
     = Fin (- (1 / 1000000000))
   \<and> example_table (1 * 11 + 10) = NaN
   \<and> GMMTerm example_pixel_a (\<lambda>a. example_table (1 * 11 + a)) = NaN
   \<and> GMMDataTermKernel example_image 2 example_table 11 (\<lambda>a. None) 2 1 (0, 0) (0 + 0 * 2 + 0 * 1 * 2)
       = Some NaN
   \<and> GMMDataTermKernel example_image 2 example_table 11 (\<lambda>a. None) 2 1 (0, 0) (0 + 0 * 2 + 1 * 1 * 2)
       = Some NaN"
proof -
  have t: "GMMTerm pixel (\<lambda>a. example_table (1 * 11 + a)) = NaN" for pixel
    by (rule GMMTerm_NaN) (rule example_table_common_term)
  have d: "GMMFinalize_launch True 2 (\<lambda>a. Fin 0) example_scratch 11 1 (\<lambda>a. Fin 0) (1 * 11 + 10)
     = Fin (- (1 / 1000000000))"
    using empty_cluster_table by simp
  have k: "GMMDataTermKernel example_image 2 example_table 11 (\<lambda>a. None) 2 1 (0, 0)
     = (\<lambda>a. None)(0 := Some NaN, 2 := Some NaN)"
    using t by (simp add: GMMDataTermKernel_def data_term_weights_2 MIXTURES_def upt_2 Let_def)
  show ?thesis
    using t d example_table_common_term k by simp
qed

text \<open>
  Claim C4, amended. A cluster whose partial records are all zero (no pixel is assigned
  to it) finalizes to count zero and mean zero, and its off-diagonal covariance entries
  are zero; its three diagonal covariance entries and its determinant are not zero, since
  the regularization constant enters them whatever the count is.
\<close>

theorem empty_cluster_finalized:
  assumes "\<forall>n<N. \<forall>i<10. gmm_scratch (N * b * gmm_pitch + (n * gmm_pitch + i)) = Fin 0"
  shows "let out = GMMFinalizeKernel invertSigma gmm gmm_scratch gmm_pitch N final_gmm0 b;
             cov = GMMFinalizeKernel False gmm gmm_scratch gmm_pitch N final_gmm0 b
         in out (b * gmm_pitch + 0) = Fin 0 \<and> out (b * gmm_pitch + 1) = Fin 0
            \<and> out (b * gmm_pitch + 2) = Fin 0 \<and> out (b * gmm_pitch + 3) = Fin 0
            \<and> cov (b * gmm_pitch + 5) = Fin 0 \<and> cov (b * gmm_pitch + 6) = Fin 0
            \<and> cov (b * gmm_pitch + 8) = Fin 0
            \<and> cov (b * gmm_pitch + 4) \<noteq> Fin 0 \<and> cov (b * gmm_pitch + 7) \<noteq> Fin 0
            \<and> cov (b * gmm_pitch + 9) \<noteq> Fin 0
            \<and> out (b * gmm_pitch + 10) \<noteq> Fin 0"
proof -
  let ?raw = "cluster_sums gmm_scratch gmm_pitch N b"
  have raw: "?raw i = Fin 0" if "i < 10" for i
  proof -
    have "?raw i = (\<Sum>n<N. gmm_scratch (N * b * gmm_pitch + (n * gmm_pitch + i)))"
      by (simp add: cluster_sums_def block_sum_eq)
    also have "\<dots> = 0"
      by (rule sum.neutral) (use assms that in \<open>simp add: zero_fl_def\<close>)
    finally show ?thesis by (simp add: zero_fl_def)
  qed
  have m: "map (finalize_moments ?raw final_gmm0) [0, 1, 2, 3, 4, 5, 6, 7, 8, 9]
     = map Fin [0, 0, 0, 0, - (1 / 1000), 0, 0, - (1 / 1000), 0, - (1 / 1000)]"
    by (simp add: finalize_moments_slots norm_factor_of_def epsilon_def raw)
  have low: "finalize_block inv ?raw final_gmm0 i = finalize_moments ?raw final_gmm0 i"
    if "i < 4" for i inv
    using that by (cases inv) (simp_all add: finalize_block_def finalize_inv_low finalize_det_low)
  have det: "finalize_block inv ?raw final_gmm0 10 = Fin (- (1 / 1000000000))" for inv
    using m by (simp add: finalize_block_10 sym3_det_def)
  show ?thesis
    using m det [of invertSigma] low [of 0 invertSigma] low [of 1 invertSigma]
      low [of 2 invertSigma] low [of 3 invertSigma]
      GMMFinalizeKernel_cells [of invertSigma gmm gmm_scratch gmm_pitch N final_gmm0 b]
      GMMFinalizeKernel_cells [of False gmm gmm_scratch gmm_pitch N final_gmm0 b]
    by (simp add: Let_def finalize_block_False_low)
qed

theorem empty_cluster_finalized_witness:
  "GMMFinalizeKernel True (\<lambda>a. Fin 0) example_scratch 11 1 (\<lambda>a. Fin 0) 1 (1 * 11 + 0) = Fin 0
   \<and> GMMFinalizeKernel True (\<lambda>a. Fin 0) example_scratch 11 1 (\<lambda>a. Fin 0) 1 (1 * 11 + 3) = Fin 0
   \<and> GMMFinalizeKernel False (\<lambda>a. Fin 0) example_scratch 11 1 (\<lambda>a. Fin 0) 1 (1 * 11 + 5) = Fin 0
   \<and> GMMFinalizeKernel False (\<lambda>a. Fin 0) example_scratch 11 1 (\<lambda>a. Fin 0) 1 (1 * 11 + 4) \<noteq> Fin 0
   \<and> GMMFinalizeKernel True (\<lambda>a. Fin 0) example_scratch 11 1 (\<lambda>a. Fin 0) 1 (1 * 11 + 10) \<noteq> Fin 0"
proof -
  have "\<forall>n<1. \<forall>i<10. example_scratch (1 * 1 * 11 + (n * 11 + i)) = Fin 0"
    by (simp add: example_scratch_def)
  from empty_cluster_finalized [OF this, of True "\<lambda>a. Fin 0" "\<lambda>a. Fin 0"]
  show ?thesis by (simp add: Let_def)
qed

text \<open>
  Claim C2 is right about the intent and the code misses it. The tile of the example
  holds the two pixels (10, 20, 30) and (20, 40, 50) of cluster 0. The means and the
  off-diagonal covariance entries are as the claim says, but each diagonal entry is
  \<open>sum / count - mean\<^sup>2 - 1/1000\<close>: \<^verbatim>\<open>get_constant\<close> adds the epsilon to the term that
  \<^verbatim>\<open>GMMFinalizeKernel\<close> subtracts.
\<close>

theorem finalize_subtracts_epsilon:
  "map (\<lambda>t. GMMFinalizeKernel False (\<lambda>a. Fin 0) example_scratch 11 1 (\<lambda>a. Fin 0) 0 (0 * 11 + t))
       [0, 1, 2, 3, 4, 5, 6, 7, 8, 9]
     = map Fin [2, 30 / 2, 60 / 2, 80 / 2,
                500 / 2 - 15 * 15 - 1 / 1000, 1000 / 2 - 15 * 30, 1300 / 2 - 15 * 40,
                2000 / 2 - 30 * 30 - 1 / 1000, 2600 / 2 - 30 * 40,
                3400 / 2 - 40 * 40 - 1 / 1000]"
  using GMMFinalizeKernel_cells [of False "\<lambda>a. Fin 0" example_scratch 11 1 "\<lambda>a. Fin 0" 0]
        example_moments [of "\<lambda>a. Fin 0"]
  by (simp add: finalize_block_False_low)

text \<open>
  Claim C3 is right about the intent and the code misses it, by the same sign. For a
  cluster of the single pixel (10, 20, 30), and for the cluster without pixels of the
  example, the finalized covariance matrix has the quadratic form \<open>- 1/1000\<close> at the
  vector (1, 0, 0): it is not positive semi-definite.
\<close>

theorem covariance_not_positive_semidefinite:
  "sym3_quadratic_form
      (\<lambda>i. GMMFinalizeKernel False (\<lambda>a. Fin 0) single_pixel_scratch 11 1 (\<lambda>a. Fin 0) 0 (0 * 11 + (4 + i)))
      (make_float3 (Fin 1) (Fin 0) (Fin 0)) = Fin (- (1 / 1000))
   \<and> sym3_quadratic_form
      (\<lambda>i. GMMFinalizeKernel False (\<lambda>a. Fin 0) example_scratch 11 1 (\<lambda>a. Fin 0) 1 (1 * 11 + (4 + i)))
      (make_float3 (Fin 1) (Fin 0) (Fin 0)) = Fin (- (1 / 1000))
   \<and> fgt (Fin 0) (Fin (- (1 / 1000)))"
proof -
  have sums: "map (cluster_sums single_pixel_scratch 11 1 0) [0, 1, 2, 3, 4, 5, 6, 7, 8, 9]
     = map Fin [1, 10, 20, 30, 100, 200, 300, 400, 600, 900]"
    by (simp add: cluster_sums_one_tile single_pixel_scratch_def get_component_def
          example_pixel_a_def float_of_nat_def)
  have single: "map (finalize_moments (cluster_sums single_pixel_scratch 11 1 0) (\<lambda>a. Fin 0))
        [4, 5, 6, 7, 8, 9]
     = map Fin [- (1 / 1000), 0, 0, - (1 / 1000), 0, - (1 / 1000)]"
    using sums by (simp add: finalize_moments_slots norm_factor_of_def epsilon_def)
  show ?thesis
    using GMMFinalizeKernel_cells [of False "\<lambda>a. Fin 0" single_pixel_scratch 11 1 "\<lambda>a. Fin 0" 0]
          GMMFinalizeKernel_cells [of False "\<lambda>a. Fin 0" example_scratch 11 1 "\<lambda>a. Fin 0" 1]
          single empty_cluster_moments [of "\<lambda>a. Fin 0"]
    by (simp add: finalize_block_False_low sym3_quadratic_form_def make_float3_def)
qed

section \<open>GMMDataTermKernel\<close>










lemma data_term_weights_eq:
  "data_term_weights pixel gmmN gmm gmm_pitch =
     ((\<lambda>i. Fin 0)(0 := mixture_loop pixel gmmN gmm gmm_pitch 0 0 (Fin 0),
                    1 := mixture_loop pixel gmmN gmm gmm_pitch 1 0 (Fin 0)),
      Fin 0 + mixture_loop pixel gmmN gmm gmm_pitch 0 0 (Fin 0)
        + mixture_loop pixel gmmN gmm gmm_pitch 1 0 (Fin 0))"
  by (simp add: data_term_weights_def MIXTURES_def upt_2 weights_step_def Let_def)

lemma GMMDataTermKernel_eq:
  assumes "x < width" "y < height"
  shows "GMMDataTermKernel img gmmN gmm gmm_pitch output width height (x, y) =
     (let st = data_term_weights (img (x + y * width)) gmmN gmm gmm_pitch
      in output(x + y * width + 0 * height * width := Some (fst st 0 / snd st),
                x + y * width + 1 * height * width := Some (fst st 1 / snd st)))"
  using assms by (simp add: GMMDataTermKernel_def MIXTURES_def upt_2 Let_def)





lemma fold_thread_miss:
  assumes "\<And>t g. t \<in> set ts \<Longrightarrow> upd t g a = g a"
  shows "fold upd ts g0 a = g0 a"
  using assms by (induction ts rule: rev_induct) simp_all

lemma pixel_index_bound:
  assumes "x < width" "y < height"
  shows "x + y * width < height * (width::nat)"
proof -
  from assms(2) have "Suc y \<le> height" by simp
  then have "Suc y * width \<le> height * width" by (rule mult_le_mono1)
  with assms(1) show ?thesis by simp
qed

lemma div_plane: "s < m \<Longrightarrow> (s + i * m) div m = (i::nat)"
  by (cases "m = 0") simp_all

lemma mod_plane: "s < m \<Longrightarrow> (s + i * m) mod m = (s::nat)"
  by simp






lemma unit_table_common_term: "GMMcommonTerm 1 unit_table 11 = unit_table"
proof
  fix a
  show "GMMcommonTerm 1 unit_table 11 a = unit_table a"
  proof (cases "a = 10 \<or> a = 21")
    case True
    have "GMMcommonTerm 1 unit_table 11 ((2 * 0 + 0) * 11 + 10) = common_term_of 1 unit_table 11 (0, 0)"
      by (rule GMMcommonTerm_slot) simp_all
    moreover
    have "GMMcommonTerm 1 unit_table 11 ((2 * 0 + 1) * 11 + 10) = common_term_of 1 unit_table 11 (0, 1)"
      by (rule GMMcommonTerm_slot) simp_all
    ultimately show ?thesis
      using True by (auto simp: common_term_of_def mixture_pixels_def unit_table_def)
  next
    case False
    show ?thesis
    proof (rule GMMcommonTerm_frame)
      fix x y :: nat assume "x < 1" "y < 2"
      then have "x = 0" "y = 0 \<or> y = 1" by auto
      with False show "a \<noteq> (2 * x + y) * 11 + 10" by auto
    qed simp
  qed
qed

lemma expf_0: "expf (Fin 0) = Fin 1"
  by (simp add: FLT_MAX_def FLT_TRUE_MIN_def)

lemma unit_table_term: "GMMTerm pixel (\<lambda>a. unit_table (c * 11 + a)) = Fin 1"
  by (simp add: GMMTerm_def unit_table_def Let_def make_float3_def float_of_nat_def
        FLT_MAX_def FLT_TRUE_MIN_def)








section \<open>GMMDoSplit and GMMFindSplit\<close>

lemma fold_thread_once:
  assumes "t \<in> set ts" "distinct ts"
    and "\<And>g. upd t g a = F (g a)"
    and "\<And>t' g. t' \<in> set ts \<Longrightarrow> t' \<noteq> t \<Longrightarrow> upd t' g a = g a"
  shows "fold upd ts g0 a = F (g0 a)"
  using assms(1,2,4)
proof (induction ts rule: rev_induct)
  case Nil
  then show ?case by simp
next
  case (snoc x xs)
  from snoc.prems(2) have d: "distinct xs" "x \<notin> set xs" by simp_all
  show ?case
  proof (cases "x = t")
    case True
    have "fold upd xs g0 a = g0 a"
    proof (rule fold_thread_miss)
      fix t' g assume "t' \<in> set xs"
      with d(2) True have "t' \<noteq> t" by auto
      with \<open>t' \<in> set xs\<close> show "upd t' g a = g a" using snoc.prems(3) [of t' g] by simp
    qed
    with True assms(3) [of "fold upd xs g0"] show ?thesis by simp
  next
    case False
    with snoc.prems(1) have mem: "t \<in> set xs" by simp
    have "fold upd xs g0 a = F (g0 a)"
    proof (rule snoc.IH [OF mem d(1)])
      fix t' g assume "t' \<in> set xs" "t' \<noteq> t"
      then show "upd t' g a = g a" using snoc.prems(3) [of t' g] by simp
    qed
    with False snoc.prems(3) [of x "fold upd xs g0"] show ?thesis by simp
  qed
qed

lemma row_index_inj:
  assumes "x < width" "x' < width" "y * width + x = y' * width + (x'::nat)"
  shows "x = x' \<and> y = y'"
proof -
  have e: "x + y * width = x' + y' * width" using assms(3) by (simp add: add.commute)
  have "(x + y * width) mod width = (x' + y' * width) mod width" by (simp only: e)
  then have x: "x = x'" by (simp only: mod_plane [OF assms(1)] mod_plane [OF assms(2)])
  have "(x + y * width) div width = (x' + y' * width) div width" by (simp only: e)
  then have y: "y = y'" by (simp only: div_plane [OF assms(1)] div_plane [OF assms(2)])
  from x y show ?thesis by simp
qed

lemma DoSplit_thread_at:
  "DoSplit_thread gmmSplit k img width height t alpha a =
     (if fst t < width \<and> snd t < height \<and> a = snd t * width + fst t
      then DoSplit_pixel gmmSplit k (img a) (alpha a) else alpha a)"
  by (simp add: DoSplit_thread_def Let_def)

lemma GMMDoSplit_cell:
  assumes "x < width" "y < height"
  shows "GMMDoSplit gmmSplit k img alpha width height (y * width + x)
     = DoSplit_pixel gmmSplit k (img (y * width + x)) (alpha (y * width + x))"
  unfolding GMMDoSplit_def Let_def
proof (rule fold_thread_once [where t = "(x, y)"
        and F = "DoSplit_pixel gmmSplit k (img (y * width + x))"])
  have "width \<le> (width + 31) div 32 * 32" "height \<le> (height + 31) div 32 * 32"
    by simp_all
  with assms have "x < (width + 31) div 32 * 32 \<and> y < (height + 31) div 32 * 32"
    by linarith
  then show "(x, y) \<in> set (List.product [0..<(width + 31) div 32 * 32]
                              [0..<(height + 31) div 32 * 32])"
    by (simp only: product_mem fst_conv snd_conv)
  show "distinct (List.product [0..<(width + 31) div 32 * 32] [0..<(height + 31) div 32 * 32])"
    by (intro distinct_product distinct_upt)
next
  fix g
  show "DoSplit_thread gmmSplit k img width height (x, y) g (y * width + x)
      = DoSplit_pixel gmmSplit k (img (y * width + x)) (g (y * width + x))"
    using assms by (simp add: DoSplit_thread_at)
next
  fix t' g
  assume "t' \<noteq> (x, y)"
  have "\<not> (fst t' < width \<and> snd t' < height \<and> y * width + x = snd t' * width + fst t')"
  proof
    assume h: "fst t' < width \<and> snd t' < height \<and> y * width + x = snd t' * width + fst t'"
    then have "x = fst t' \<and> y = snd t'"
      using row_index_inj [of x width "fst t'" y "snd t'"] assms(1) by simp
    with \<open>t' \<noteq> (x, y)\<close> show False by (cases t') simp
  qed
  then show "DoSplit_thread gmmSplit k img width height t' g (y * width + x) = g (y * width + x)"
    by (subst DoSplit_thread_at) (simp only: if_False)
qed

lemma GMMDoSplit_frame:
  assumes "width * height \<le> p"
  shows "GMMDoSplit gmmSplit k img alpha width height p = alpha p"
  unfolding GMMDoSplit_def Let_def
proof (rule fold_thread_miss)
  fix t g
  have "p \<noteq> snd t * width + fst t" if "fst t < width" "snd t < height"
    using pixel_index_bound [OF that] assms by (simp add: mult.commute add.commute)
  then show "DoSplit_thread gmmSplit k img width height t g p = g p"
    by (auto simp: DoSplit_thread_at)
qed

lemma shift_mask_int: "drop_bit 1 v = idx \<longleftrightarrow> v = 2 * idx + (v AND 1)" for v idx :: int
proof -
  have d: "drop_bit 1 v = v div 2" by (simp add: drop_bit_eq_div)
  have m: "v AND 1 = v mod 2" by (rule and_one_eq)
  show ?thesis unfolding d m by (auto simp: mult.commute)
qed

lemma DoSplit_pixel_eq:
  "DoSplit_pixel gmmSplit k pixel a =
     (if relabel_condition gmmSplit pixel a then word_of_int (k + label_mixture a) else a)"
proof -
  have "drop_bit 1 (sint a) = split_idx (gmmSplit (nat (sint a AND 1)))
      \<longleftrightarrow> sint a = 2 * split_idx (gmmSplit (nat (sint a AND 1))) + (sint a AND 1)"
    by (rule shift_mask_int)
  then show ?thesis
    unfolding DoSplit_pixel_def relabel_condition_def label_mixture_def pixel_color_def Let_def
    by (simp only: split: if_split) blast
qed

lemma fmaxf_commute: "fmaxf a b = fmaxf b a"
  by (cases a; cases b; simp)

lemma fmaxf_assoc: "fmaxf (fmaxf a b) c = fmaxf a (fmaxf b c)"
  by (cases a; cases b; cases c; simp)

lemma fmaxf_left_commute: "fmaxf a (fmaxf b c) = fmaxf b (fmaxf a c)"
  by (cases a; cases b; cases c; simp)


lemma fmaxf_NaN_right [simp]: "fmaxf a NaN = a"
  by (cases a; simp)



lemma warp_reduce_fmaxf_rot:
  "warp_reduce fmaxf s l = fold fmaxf (map (\<lambda>c. s ((l + c) mod 32)) [1..<32]) (s l)"
  unfolding warp_reduce_def warp_step_def
  by (simp add: upt_rec mod_simps ac_simps fmaxf_commute fmaxf_assoc fmaxf_left_commute)

lemma fold_fmaxf_perm:
  assumes "mset xs = mset ys"
  shows "fold fmaxf xs z = fold fmaxf ys z"
  by (rule fold_multiset_equiv [OF _ assms, THEN fun_cong])
     (simp add: fun_eq_iff fmaxf_left_commute)

lemma rot_mset:
  assumes "l < 32"
  shows "mset (map (\<lambda>c. (l + c) mod 32) [0..<32]) = mset [0..<32]"
proof -
  from rot_bij [OF assms] have inj: "inj_on (\<lambda>c. (l + c) mod 32) {0..<32::nat}"
    and img: "(\<lambda>c. (l + c) mod 32) ` {0..<32::nat} = {0..<32}"
    by (simp_all add: bij_betw_def)
  have "distinct (map (\<lambda>c. (l + c) mod 32) [0..<32])"
    using inj by (simp add: distinct_map)
  moreover have "set (map (\<lambda>c. (l + c) mod 32) [0..<32]) = set [0..<32]"
    using img by simp
  moreover have "distinct [0..<32::nat]" by simp
  ultimately show ?thesis
    using set_eq_iff_mset_eq_distinct [of "map (\<lambda>c. (l + c) mod 32) [0..<32]" "[0..<32]"]
    by blast
qed

lemma warp_reduce_fmaxf:
  assumes "l < 32"
  shows "warp_reduce fmaxf s l = lanes_max s"
proof -
  have "warp_reduce fmaxf s l = fold fmaxf (map (\<lambda>c. s ((l + c) mod 32)) [1..<32]) (fmaxf (s ((l + 0) mod 32)) NaN)"
    using assms by (simp add: warp_reduce_fmaxf_rot)
  also have "\<dots> = fold fmaxf (map (\<lambda>c. s ((l + c) mod 32)) [0..<32]) NaN"
    by (subst (2) upt_rec) simp
  also have "\<dots> = fold fmaxf (map s (map (\<lambda>c. (l + c) mod 32) [0..<32])) NaN"
    by (simp add: comp_def)
  also have "\<dots> = fold fmaxf (map s [0..<32]) NaN"
  proof (rule fold_fmaxf_perm)
    have "mset (map s (map (\<lambda>c. (l + c) mod 32) [0..<32]))
        = image_mset s (mset (map (\<lambda>c. (l + c) mod 32) [0..<32]))"
      by (rule mset_map)
    also have "\<dots> = image_mset s (mset [0..<32])"
      by (simp only: rot_mset [OF assms])
    also have "\<dots> = mset (map s [0..<32])"
      by (rule mset_map [symmetric])
    finally show "mset (map s (map (\<lambda>c. (l + c) mod 32) [0..<32])) = mset (map s [0..<32])" .
  qed
  finally show ?thesis by (simp add: lanes_max_def)
qed









lemma GMMFindSplit_writers_eq:
  "GMMFindSplit_writers gmmK gmm gmm_pitch y =
     filter (\<lambda>x. feq (lanes_max (findsplit_eigenvalue gmmK gmm gmm_pitch y))
                      (findsplit_eigenvalue gmmK gmm gmm_pitch y x)) [0..<32]"
  unfolding GMMFindSplit_writers_def
proof (rule filter_cong [OF refl])
  fix x assume "x \<in> set [0..<32]"
  then have "x < 32" by (simp only: set_upt atLeastLessThan_iff)
  then show "feq (findsplit_maxvalue gmmK gmm gmm_pitch y x) (findsplit_eigenvalue gmmK gmm gmm_pitch y x)
      = feq (lanes_max (findsplit_eigenvalue gmmK gmm gmm_pitch y))
            (findsplit_eigenvalue gmmK gmm gmm_pitch y x)"
    by (simp only: findsplit_maxvalue_def warp_reduce_fmaxf)
qed



lemma largest_eigenvalue_scalar:
  assumes "0 < c" "M 0 = Fin c" "M 1 = Fin 0" "M 2 = Fin 0" "M 3 = Fin c" "M 4 = Fin 0" "M 5 = Fin c"
  shows "largest_eigenvalue M = Fin c"
  using assms(1) unfolding largest_eigenvalue_def Let_def assms(2-)
  by (simp add: atan2_real_def)

lemma upt_32:
  "[0..<32] = [0, 1, 2, 3, 4, 5, 6, 7, 8, 9, 10, 11, 12, 13, 14, 15, 16, 17, 18, 19, 20, 21, 22,
               23, 24, 25, 26, 27, 28, 29, 30, 31]"
  by (simp add: upt_rec)

lemma split_table_eigenvalues:
  "findsplit_eigenvalue 1 split_table 11 0 = (\<lambda>x. if x = 0 then Fin 4 else Fin 0)"
  "findsplit_eigenvalue 1 split_table 11 1 = (\<lambda>x. if x = 0 then Fin 1 else Fin 0)"
proof -
  have "largest_eigenvalue (\<lambda>a. split_table (findsplit_gmm_idx 0 0 * 11 + 4 + a)) = Fin 4"
    by (rule largest_eigenvalue_scalar) (simp_all add: split_table_def findsplit_gmm_idx_def)
  then show "findsplit_eigenvalue 1 split_table 11 0 = (\<lambda>x. if x = 0 then Fin 4 else Fin 0)"
    by (auto simp: findsplit_eigenvalue_def fun_eq_iff)
  have "largest_eigenvalue (\<lambda>a. split_table (findsplit_gmm_idx 1 0 * 11 + 4 + a)) = Fin 1"
    by (rule largest_eigenvalue_scalar) (simp_all add: split_table_def findsplit_gmm_idx_def)
  then show "findsplit_eigenvalue 1 split_table 11 1 = (\<lambda>x. if x = 0 then Fin 1 else Fin 0)"
    by (auto simp: findsplit_eigenvalue_def fun_eq_iff)
qed


lemma split_table_writers:
  "GMMFindSplit_writers 1 split_table 11 0 = [0]"
  "GMMFindSplit_writers 1 split_table 11 1 = [0]"
  unfolding GMMFindSplit_writers_eq split_table_eigenvalues lanes_max_def upt_32
  by simp_all




text \<open>
  The relabelling pass. Every descriptor that \<^verbatim>\<open>GMMFindSplit\<close> stores for mixture \<open>m\<close> has
  as threshold the scalar product of the mean of its cluster and the vector that
  \<^verbatim>\<open>compute_eigenvector\<close> returned. \<^verbatim>\<open>GMMDoSplit\<close> holds one descriptor per mixture and
  changes the label of a pixel of the image exactly when the pixel has a label other than
  -1, the label is the cluster chosen for the pixel's mixture, and the projection of its
  colour onto that vector strictly exceeds the threshold; the new label is
  \<^verbatim>\<open>k + select\<close>. Every other label, and every element of the label array outside the
  image, is unchanged. The image is an input that is only read: \<open>GMMDoSplit\<close> returns the
  label map alone.
\<close>

theorem do_split_relabels:
  "(\<forall>d\<in>set (GMMFindSplit gmmK gmm gmm_pitch uninit m).
       split_threshold d
         = scalar_prod (cluster_mean gmm gmm_pitch (2 * nat (split_idx d) + m)) (split_eigenvector d))
   \<and> (\<forall>x y. x < width \<and> y < height \<longrightarrow>
         GMMDoSplit gmmSplit k img alpha width height (y * width + x)
           = (if relabel_condition gmmSplit (img (y * width + x)) (alpha (y * width + x))
              then word_of_int (k + label_mixture (alpha (y * width + x)))
              else alpha (y * width + x)))
   \<and> (\<forall>p\<ge>width * height. GMMDoSplit gmmSplit k img alpha width height p = alpha p)"
proof (intro conjI ballI allI impI)
  fix d assume "d \<in> set (GMMFindSplit gmmK gmm gmm_pitch uninit m)"
  then obtain x where "d = findsplit_split gmmK gmm gmm_pitch uninit m x"
    unfolding GMMFindSplit_def by (auto simp only: set_map image_iff)
  then show "split_threshold d
      = scalar_prod (cluster_mean gmm gmm_pitch (2 * nat (split_idx d) + m)) (split_eigenvector d)"
    by (simp add: findsplit_split_def Let_def cluster_mean_def findsplit_gmm_idx_def mult.commute)
next
  fix x y assume "x < width \<and> y < height"
  then show "GMMDoSplit gmmSplit k img alpha width height (y * width + x)
           = (if relabel_condition gmmSplit (img (y * width + x)) (alpha (y * width + x))
              then word_of_int (k + label_mixture (alpha (y * width + x)))
              else alpha (y * width + x))"
    by (simp add: GMMDoSplit_cell DoSplit_pixel_eq)
next
  fix p assume "width * height \<le> p"
  then show "GMMDoSplit gmmSplit k img alpha width height p = alpha p"
    by (rule GMMDoSplit_frame)
qed

theorem do_split_relabels_witness:
  "split_threshold (findsplit_split 1 split_table 11 zero_float3 0 0)
     = scalar_prod (cluster_mean split_table 11
                      (2 * nat (split_idx (findsplit_split 1 split_table 11 zero_float3 0 0)) + 0))
         (split_eigenvector (findsplit_split 1 split_table 11 zero_float3 0 0))
   \<and> GMMDoSplit example_split 2 example_image (\<lambda>p. 0) 2 1 (0 * 2 + 0) = 0
   \<and> GMMDoSplit example_split 2 example_image (\<lambda>p. 0) 2 1 (0 * 2 + 1) = 2
   \<and> GMMDoSplit example_split 2 example_image (\<lambda>p. 0) 2 1 5 = 0"
proof -
  note inst = do_split_relabels [of 1 split_table 11 zero_float3 0 2 1 example_split 2
      example_image "\<lambda>p. 0"]
  have mem: "findsplit_split 1 split_table 11 zero_float3 0 0
      \<in> set (GMMFindSplit 1 split_table 11 zero_float3 0)"
    using split_table_writers by (simp add: GMMFindSplit_def)
  have a: "\<not> relabel_condition example_split (example_image (0 * 2 + 0)) 0"
    by (simp add: relabel_condition_def example_split_def example_image_def example_pixel_a_def
          label_mixture_def pixel_color_def scalar_prod_def make_float3_def float_of_nat_def)
  have b: "relabel_condition example_split (example_image (0 * 2 + 1)) 0"
    by (simp add: relabel_condition_def example_split_def example_image_def example_pixel_b_def
          label_mixture_def pixel_color_def scalar_prod_def make_float3_def float_of_nat_def)
  from inst [THEN conjunct1, rule_format, OF mem]
       inst [THEN conjunct2, THEN conjunct1, rule_format, of 0 0]
       inst [THEN conjunct2, THEN conjunct1, rule_format, of 1 0]
       inst [THEN conjunct2, THEN conjunct2, rule_format, of 5]
       a b
  show ?thesis by (simp add: label_mixture_def)
qed

section \<open>Index parity and the top-level mixture\<close>

lemma and_one_parity: "s = 0 \<or> s = 1 \<Longrightarrow> even k \<Longrightarrow> (k + s) AND 1 = s" for k s :: int
  by (auto simp: and_one_eq elim!: evenE)

lemma label_mixture_range: "label_mixture a = 0 \<or> label_mixture a = 1"
  unfolding label_mixture_def and_one_eq by presburger

lemma label_mixture_store: "label_mixture (word_of_int v) = v AND 1"
proof -
  have "even (signed_take_bit 7 v) \<longleftrightarrow> even v"
    by (rule even_signed_take_bit_iff)
  then have "signed_take_bit 7 v mod 2 = v mod 2"
    by presburger
  then show ?thesis
    by (simp add: label_mixture_def sint_sbintrunc' and_one_eq)
qed

lemma DoSplit_pixel_mixture:
  assumes "even k"
  shows "label_mixture (DoSplit_pixel gmmSplit k pixel a) = label_mixture a"
proof (cases "relabel_condition gmmSplit pixel a")
  case True
  then have "DoSplit_pixel gmmSplit k pixel a = word_of_int (k + label_mixture a)"
    by (simp only: DoSplit_pixel_eq if_True)
  then have "label_mixture (DoSplit_pixel gmmSplit k pixel a) = (k + label_mixture a) AND 1"
    by (simp only: label_mixture_store)
  also have "\<dots> = label_mixture a"
    by (rule and_one_parity [OF label_mixture_range assms])
  finally show ?thesis .
next
  case False
  then show ?thesis by (simp only: DoSplit_pixel_eq if_False)
qed

lemma GMMDoSplit_at:
  "GMMDoSplit gmmSplit k img alpha width height p
     = (if p < width * height then DoSplit_pixel gmmSplit k (img p) (alpha p) else alpha p)"
proof (cases "p < width * height")
  case False
  then show ?thesis by (simp add: GMMDoSplit_frame)
next
  case True
  then have w: "0 < width" by (cases width) simp_all
  have p: "p = (p div width) * width + p mod width" by simp
  have x: "p mod width < width" using w by simp
  have y: "p div width < height"
    using True w by (simp add: less_mult_imp_div_less mult.commute)
  from GMMDoSplit_cell [OF x y, of gmmSplit k img alpha]
  have "GMMDoSplit gmmSplit k img alpha width height p = DoSplit_pixel gmmSplit k (img p) (alpha p)"
    by (simp only: p [symmetric])
  then show ?thesis using True by simp
qed

lemma GMMDoSplit_mixture:
  assumes "even k"
  shows "label_mixture (GMMDoSplit gmmSplit k img alpha width height p) = label_mixture (alpha p)"
  by (simp add: GMMDoSplit_at DoSplit_pixel_mixture [OF assms])

lemma GMMInitialize_alpha_mixture:
  "label_mixture (GMMInitialize_alpha finder gmm_N k img alpha width height p) = label_mixture (alpha p)"
proof (induction finder gmm_N k img alpha width height rule: GMMInitialize_alpha.induct)
  case (1 finder gmm_N k img alpha width height)
  show ?case
  proof (cases "k < gmm_N")
    case False
    then show ?thesis by (simp add: GMMInitialize_alpha.simps)
  next
    case True
    have ev: "even (int (push_bit 1 (k div 2)))" by (simp add: push_bit_eq_mult)
    from True have "GMMInitialize_alpha finder gmm_N k img alpha width height
        = GMMInitialize_alpha finder gmm_N (k + 2) img
            (GMMDoSplit (finder k alpha) (int (push_bit 1 (k div 2))) img alpha width height)
            width height"
      by (subst GMMInitialize_alpha.simps) simp
    then have "label_mixture (GMMInitialize_alpha finder gmm_N k img alpha width height p)
        = label_mixture (GMMInitialize_alpha finder gmm_N (k + 2) img
            (GMMDoSplit (finder k alpha) (int (push_bit 1 (k div 2))) img alpha width height)
            width height p)"
      by (simp only:)
    also have "\<dots> = label_mixture
        (GMMDoSplit (finder k alpha) (int (push_bit 1 (k div 2))) img alpha width height p)"
      by (rule "1.IH" [OF True])
    also have "\<dots> = label_mixture (alpha p)"
      by (rule GMMDoSplit_mixture [OF ev])
    finally show ?thesis .
  qed
qed

lemma parity_class_step:
  assumes "even j" "i < 2" "j < gmmN" "even gmmN"
  shows "{c. j \<le> c \<and> c < gmmN \<and> c mod 2 = i}
       = insert (j + i) {c. j + 2 \<le> c \<and> c < gmmN \<and> c mod 2 = (i::nat)}"
proof -
  from assms(1) obtain a where a: "j = 2 * a" by (elim evenE)
  from assms(4) obtain b where b: "gmmN = 2 * b" by (elim evenE)
  from assms(2) consider "i = 0" | "i = 1" by linarith
  then show ?thesis
  proof cases
    case 1
    have "c = j \<or> j + 2 \<le> c" if "j \<le> c" "c mod 2 = 0" for c
    proof -
      from that(2) obtain d where "c = 2 * d" by (auto elim: evenE simp: even_iff_mod_2_eq_zero [symmetric])
      with that(1) a show ?thesis by auto
    qed
    with 1 assms(3) a show ?thesis by auto
  next
    case 2
    have "c = j + 1 \<or> j + 2 \<le> c" if "j \<le> c" "c mod 2 = 1" for c
    proof -
      from that(2) have "odd c" by (simp add: odd_iff_mod_2_eq_one)
      then obtain d where "c = 2 * d + 1" by (elim oddE)
      with that(1) a show ?thesis by auto
    qed
    moreover have "j + 1 < gmmN" using assms(3) a b by auto
    ultimately show ?thesis using 2 a by auto
  qed
qed

lemma mixture_loop_sum:
  assumes "even gmmN" "i < 2"
  shows "even j \<Longrightarrow> mixture_loop pixel gmmN gmm gmm_pitch i j acc
     = acc + (\<Sum>c | j \<le> c \<and> c < gmmN \<and> c mod 2 = i. GMMTerm pixel (\<lambda>a. gmm (c * gmm_pitch + a)))"
  using assms
proof (induction pixel gmmN gmm gmm_pitch i j acc rule: mixture_loop.induct)
  case (1 pixel gmmN gmm gmm_pitch i j acc)
  let ?T = "\<lambda>c. GMMTerm pixel (\<lambda>a. gmm (c * gmm_pitch + a))"
  show ?case
  proof (cases "j < gmmN")
    case False
    then have e: "{c. j \<le> c \<and> c < gmmN \<and> c mod 2 = i} = {}" by auto
    have "mixture_loop pixel gmmN gmm gmm_pitch i j acc = acc"
      using False by (subst mixture_loop.simps) simp
    then show ?thesis unfolding e by simp
  next
    case True
    have ev: "even (j + MIXTURES)" using "1.prems"(1) by (simp add: MIXTURES_def)
    have fin: "finite {c. j + 2 \<le> c \<and> c < gmmN \<and> c mod 2 = i}" by simp
    have notin: "j + i \<notin> {c. j + 2 \<le> c \<and> c < gmmN \<and> c mod 2 = i}"
      using "1.prems"(3) by simp
    have "mixture_loop pixel gmmN gmm gmm_pitch i j acc
        = mixture_loop pixel gmmN gmm gmm_pitch i (j + MIXTURES) (acc + ?T (j + i))"
      using True by (subst mixture_loop.simps) simp
    also have "\<dots> = acc + ?T (j + i) + sum ?T {c. j + 2 \<le> c \<and> c < gmmN \<and> c mod 2 = i}"
      using "1.IH" [OF True ev "1.prems"(2,3)] by (simp add: MIXTURES_def)
    also have "\<dots> = acc + sum ?T {c. j \<le> c \<and> c < gmmN \<and> c mod 2 = i}"
      unfolding parity_class_step [OF "1.prems"(1) "1.prems"(3) True "1.prems"(2)]
      by (simp only: sum.insert [OF fin notin] add.assoc)
    finally show ?thesis .
  qed
qed

lemma mixture_pixels_parity:
  assumes "y < 2"
  shows "mixture_pixels gmmK gmm gmm_pitch y
       = (\<Sum>c | c < 2 * gmmK \<and> c mod 2 = y. gmm (c * gmm_pitch))"
  unfolding mixture_pixels_def
proof (rule sum.reindex_bij_witness [where i = "\<lambda>c. c div 2" and j = "\<lambda>x. 2 * x + y"])
  fix x assume "x \<in> {..<gmmK}"
  then show "(2 * x + y) div 2 = x" using assms by simp
  from \<open>x \<in> {..<gmmK}\<close> show "2 * x + y \<in> {c. c < 2 * gmmK \<and> c mod 2 = y}"
    using assms by simp
  show "gmm ((2 * x + y) * gmm_pitch) = gmm ((2 * x + y) * gmm_pitch)" by (rule refl)
next
  fix c assume c: "c \<in> {c. c < 2 * gmmK \<and> c mod 2 = y}"
  then show "2 * (c div 2) + y = c" by auto
  from c show "c div 2 \<in> {..<gmmK}" by auto
qed

lemma data_term_weight_parity:
  assumes "even gmmN" "i < 2"
  shows "fst (data_term_weights pixel gmmN gmm gmm_pitch) i
       = (\<Sum>c | c < gmmN \<and> c mod 2 = i. GMMTerm pixel (\<lambda>a. gmm (c * gmm_pitch + a)))"
proof -
  have "fst (data_term_weights pixel gmmN gmm gmm_pitch) i
      = mixture_loop pixel gmmN gmm gmm_pitch i 0 (Fin 0)"
  proof -
    from assms(2) consider "i = 0" | "i = 1" by linarith
    then show ?thesis by cases (simp_all add: data_term_weights_eq)
  qed
  also have "\<dots> = Fin 0 + (\<Sum>c | 0 \<le> c \<and> c < gmmN \<and> c mod 2 = i.
      GMMTerm pixel (\<lambda>a. gmm (c * gmm_pitch + a)))"
    by (rule mixture_loop_sum [OF assms]) simp
  also have "\<dots> = (\<Sum>c | c < gmmN \<and> c mod 2 = i. GMMTerm pixel (\<lambda>a. gmm (c * gmm_pitch + a)))"
    by (simp add: zero_fl_def [symmetric])
  finally show ?thesis .
qed

lemma common_term_parity:
  assumes "gmmK \<le> 32" "10 < gmm_pitch" "c < 2 * gmmK"
  shows "GMMcommonTerm gmmK gmm gmm_pitch (c * gmm_pitch + 10)
       = gmm (c * gmm_pitch)
           / (sqrtf (gmm (c * gmm_pitch + 10))
                * (\<Sum>c' | c' < 2 * gmmK \<and> c' mod 2 = c mod 2. gmm (c' * gmm_pitch)))"
proof -
  have c: "2 * (c div 2) + c mod 2 = c" by simp
  have x: "c div 2 < gmmK" using assms(3) by auto
  have y: "c mod 2 < 2" by simp
  have p: "0 < gmm_pitch" using assms(2) by simp
  have "GMMcommonTerm gmmK gmm gmm_pitch ((2 * (c div 2) + c mod 2) * gmm_pitch + 10)
      = common_term_of gmmK gmm gmm_pitch (c div 2, c mod 2)"
    by (rule GMMcommonTerm_slot [OF assms(1) x y p])
  then show ?thesis
    unfolding common_term_of_def fst_conv snd_conv mixture_pixels_parity [OF y] c .
qed

lemma parity_class_one: "{c. c < 2 \<and> c mod 2 = Suc 0} = {Suc 0}"
  by (auto simp: less_2_cases_iff)

text \<open>
  Claim C10. The parity of a cluster index is its top-level mixture. \<^verbatim>\<open>GMMDoSplit\<close>, launched
  with an even \<open>k\<close> as every round of \<^verbatim>\<open>GMMInitialize\<close> does (\<^verbatim>\<open>(k/2) << 1\<close>), leaves a label
  as it is or stores \<open>k\<close> plus the low bit of the old label, so the low bit of every label is
  the same after the launch, and the same after all the rounds of \<^verbatim>\<open>GMMInitialize\<close>
  whatever descriptors the rounds choose. For an even number of clusters, the weight of
  mixture \<open>i\<close> at a pixel is the sum of the densities of the clusters whose index has parity
  \<open>i\<close>, and the common term of a cluster divides its count by the combined count of the
  clusters whose index has the same parity.
\<close>

theorem parity_is_mixture:
  assumes "even gmmN" and "gmmK \<le> 32" and "10 < gmm_pitch"
  shows "(\<forall>p. GMMDoSplit gmmSplit (int (push_bit 1 k)) img alpha width height p = alpha p
            \<or> GMMDoSplit gmmSplit (int (push_bit 1 k)) img alpha width height p
                = word_of_int (int (push_bit 1 k) + label_mixture (alpha p)))
       \<and> (\<forall>p. label_mixture (GMMDoSplit gmmSplit (int (push_bit 1 k)) img alpha width height p)
                = label_mixture (alpha p))
       \<and> (\<forall>p. label_mixture (GMMInitialize_alpha finder gmm_N k0 img alpha width height p)
                = label_mixture (alpha p))
       \<and> (\<forall>i<2. fst (data_term_weights pixel gmmN gmm gmm_pitch) i
                = (\<Sum>c | c < gmmN \<and> c mod 2 = i. GMMTerm pixel (\<lambda>a. gmm (c * gmm_pitch + a))))
       \<and> (\<forall>c<2 * gmmK. GMMcommonTerm gmmK gmm gmm_pitch (c * gmm_pitch + 10)
                = gmm (c * gmm_pitch)
                    / (sqrtf (gmm (c * gmm_pitch + 10))
                         * (\<Sum>c' | c' < 2 * gmmK \<and> c' mod 2 = c mod 2. gmm (c' * gmm_pitch))))"
proof (intro conjI allI impI)
  fix p
  show "GMMDoSplit gmmSplit (int (push_bit 1 k)) img alpha width height p = alpha p
          \<or> GMMDoSplit gmmSplit (int (push_bit 1 k)) img alpha width height p
              = word_of_int (int (push_bit 1 k) + label_mixture (alpha p))"
    unfolding GMMDoSplit_at DoSplit_pixel_eq by (simp only: split: if_split) blast
  have "even (int (push_bit 1 k))" by (simp add: push_bit_eq_mult)
  then show "label_mixture (GMMDoSplit gmmSplit (int (push_bit 1 k)) img alpha width height p)
          = label_mixture (alpha p)"
    by (rule GMMDoSplit_mixture)
  show "label_mixture (GMMInitialize_alpha finder gmm_N k0 img alpha width height p)
          = label_mixture (alpha p)"
    by (rule GMMInitialize_alpha_mixture)
next
  fix i :: nat assume "i < 2"
  with assms(1) show "fst (data_term_weights pixel gmmN gmm gmm_pitch) i
      = (\<Sum>c | c < gmmN \<and> c mod 2 = i. GMMTerm pixel (\<lambda>a. gmm (c * gmm_pitch + a)))"
    by (rule data_term_weight_parity)
next
  fix c assume "c < 2 * gmmK"
  with assms(2,3) show "GMMcommonTerm gmmK gmm gmm_pitch (c * gmm_pitch + 10)
      = gmm (c * gmm_pitch)
          / (sqrtf (gmm (c * gmm_pitch + 10))
               * (\<Sum>c' | c' < 2 * gmmK \<and> c' mod 2 = c mod 2. gmm (c' * gmm_pitch)))"
    by (rule common_term_parity)
qed

text \<open>
  Two pixels labelled 0, two rounds of \<^verbatim>\<open>GMMInitialize\<close> (from 2 to 4 clusters) with the
  descriptor \<open>example_split\<close>: pixel 1 is moved to cluster 2 and stays in mixture 0. On the
  table of two unit clusters the weight of mixture 1 is the density of cluster 1 and the
  common term of cluster 1 is 1.
\<close>

theorem parity_is_mixture_witness:
  "GMMDoSplit example_split (int (push_bit 1 1)) example_image (\<lambda>p. 0) 2 1 1 = 2
   \<and> label_mixture (GMMDoSplit example_split (int (push_bit 1 1)) example_image (\<lambda>p. 0) 2 1 1) = 0
   \<and> label_mixture (GMMInitialize_alpha (\<lambda>k a. example_split) 4 2 example_image (\<lambda>p. 0) 2 1 1) = 0
   \<and> fst (data_term_weights example_pixel_a 2 unit_table 11) 1 = Fin 1
   \<and> GMMcommonTerm 1 unit_table 11 (1 * 11 + 10) = Fin 1"
proof -
  have h: "even (2::nat)" "(1::nat) \<le> 32" "(10::nat) < 11" by simp_all
  note inst = parity_is_mixture [OF h, of example_split 1 example_image "\<lambda>p. 0" 2 1
      "\<lambda>k a. example_split" 4 2 example_pixel_a unit_table]
  have ne: "GMMDoSplit example_split (int (push_bit 1 1)) example_image (\<lambda>p. 0) 2 1 1 \<noteq> 0"
    by (simp add: GMMDoSplit_at DoSplit_pixel_def example_split_def example_image_def
          example_pixel_b_def scalar_prod_def make_float3_def float_of_nat_def Let_def)
  have a: "GMMDoSplit example_split (int (push_bit 1 1)) example_image (\<lambda>p. 0) 2 1 1 = 2"
    using inst [THEN conjunct1, rule_format, of 1] ne by (simp add: label_mixture_def)
  have b: "label_mixture (GMMDoSplit example_split (int (push_bit 1 1)) example_image (\<lambda>p. 0) 2 1 1) = 0"
    using inst [THEN conjunct2, THEN conjunct1, rule_format, of 1] by (simp add: label_mixture_def)
  have c: "label_mixture (GMMInitialize_alpha (\<lambda>k a. example_split) 4 2 example_image (\<lambda>p. 0) 2 1 1) = 0"
    using inst [THEN conjunct2, THEN conjunct2, THEN conjunct1, rule_format, of 1]
    by (simp add: label_mixture_def)
  have d: "fst (data_term_weights example_pixel_a 2 unit_table 11) 1 = Fin 1"
    using inst [THEN conjunct2, THEN conjunct2, THEN conjunct2, THEN conjunct1, rule_format, of 1]
    using unit_table_term [of example_pixel_a 1] by (simp add: parity_class_one)
  have e: "GMMcommonTerm 1 unit_table 11 (1 * 11 + 10) = Fin 1"
    using inst [THEN conjunct2, THEN conjunct2, THEN conjunct2, THEN conjunct2, rule_format, of 1]
    by (simp add: parity_class_one unit_table_def)
  from a b c d e show ?thesis by (intro conjI)
qed

section \<open>An infinite total of the mixture responses\<close>


lemma GMMcommonTerm_other:
  assumes "gmmK \<le> 32" "t < 10"
  shows "GMMcommonTerm gmmK gmm 11 (c * 11 + t) = gmm (c * 11 + t)"
  using assms(1)
proof (rule GMMcommonTerm_frame)
  fix x y :: nat
  show "c * 11 + t \<noteq> (2 * x + y) * 11 + 10"
  proof
    assume "c * 11 + t = (2 * x + y) * 11 + 10"
    then have "(c * 11 + t) mod 11 = ((2 * x + y) * 11 + 10) mod 11" by (rule arg_cong)
    then have "t mod 11 = 10 mod (11::nat)" by (simp only: mod_mult_self3)
    with assms(2) show False by simp
  qed
qed





section \<open>A table that the finalization produces\<close>





lemma exp_2_le: "exp (2::real) \<le> 9"
proof -
  have "exp (2::real) = exp 1 * exp 1" by (simp add: exp_add [symmetric])
  also have "\<dots> \<le> 3 * 3" by (intro mult_mono exp_le) simp_all
  finally show ?thesis by simp
qed

lemma expf_moderate:
  assumes "- 2 \<le> a" "a \<le> 0"
  shows "expf (Fin a) = Fin (exp a)"
proof -
  have up: "exp a \<le> 1" using assms(2) by simp
  have "exp (- 2 :: real) \<le> exp a" using assms(1) by simp
  moreover have "1 / 9 \<le> exp (- 2 :: real)"
    using exp_2_le by (simp add: exp_minus field_simps)
  ultimately have low: "1 / 9 \<le> exp a" by linarith
  have "(1::real) \<le> FLT_MAX" "FLT_TRUE_MIN / 2 \<le> 1 / 9"
    by (simp_all add: FLT_MAX_def FLT_TRUE_MIN_def)
  with up low have "\<not> FLT_MAX < exp a" "\<not> exp a < FLT_TRUE_MIN / 2"
    by linarith+
  then show ?thesis by simp
qed





section \<open>The eigenvector of the split\<close>

text \<open>The statements of \<^verbatim>\<open>largest_eigenvalue\<close> one by one, for evaluating it on a given matrix.\<close>

lemma largest_eigenvalue_steps:
  assumes "nrm = Fin 1 / (if fgt (M 0) (M 5) then M 0 else M 5)"
    and "a00 = nrm * M 0" and "a01 = nrm * M 1" and "a02 = nrm * M 2"
    and "a11 = nrm * M 3" and "a12 = nrm * M 4" and "a22 = nrm * M 5"
    and "c0 = a00*a11*a22 + Fin 2*a01*a02*a12 - a00*a12*a12 - a11*a02*a02 - a22*a01*a01"
    and "c1 = a00*a11 - a01*a01 + a00*a22 - a02*a02 + a11*a22 - a12*a12"
    and "c2 = a00 + a11 + a22"
    and "c2Div3 = c2 * (Fin 1 / Fin 3)"
    and "aDiv3' = (c1 - c2*c2Div3) * (Fin 1 / Fin 3)"
    and "aDiv3 = (if fgt aDiv3' (Fin 0) then Fin 0 else aDiv3')"
    and "mbDiv2 = Fin (1 / 2)*(c0 + c2Div3*(Fin 2*c2Div3*c2Div3 - c1))"
    and "q' = mbDiv2*mbDiv2 + aDiv3*aDiv3*aDiv3"
    and "q = (if fgt q' (Fin 0) then Fin 0 else q')"
    and "magnitude = sqrtf (- aDiv3)"
    and "angle = atan2f (sqrtf (- q)) mbDiv2 * (Fin 1 / Fin 3)"
    and "cs = cosf angle" and "sn = sinf angle"
    and "largest0 = c2Div3 + Fin 2*magnitude*cs"
    and "eigenvalue1 = c2Div3 - magnitude*(cs + sqrtf (Fin 3)*sn)"
    and "largest1 = (if fgt eigenvalue1 largest0 then eigenvalue1 else largest0)"
    and "eigenvalue2 = c2Div3 - magnitude*(cs - sqrtf (Fin 3)*sn)"
    and "largest2 = (if fgt eigenvalue2 largest1 then eigenvalue2 else largest1)"
  shows "largest_eigenvalue M = largest2 / nrm"
  by (simp only: largest_eigenvalue_def Let_def assms)

lemma largest_eigenvalue_skew:
  assumes M: "M 0 = Fin (999 / 1000)" "M (Suc 0) = Fin 0" "M 2 = Fin 1"
    "M 3 = Fin (999 / 1000)" "M 4 = Fin 0" "M 5 = Fin (999 / 1000)"
  shows "largest_eigenvalue M = Fin (1999 / 1000)"
proof -
  let ?m = "sqrt (1000000 / 2994003) :: real"
  have mag: "?m * sqrt 3 = 1000 / 999"
  proof -
    have "?m * sqrt 3 = sqrt ((1000 / 999)\<^sup>2)"
      unfolding real_sqrt_mult [symmetric] by (simp add: power2_eq_square)
    then show ?thesis by simp
  qed
  have m0: "0 < ?m" by simp
  have "largest_eigenvalue M = Fin (1999 / 999) / Fin (1000 / 999)"
  proof (rule largest_eigenvalue_steps [where
        ?a00.0 = "Fin 1" and ?a01.0 = "Fin 0" and ?a02.0 = "Fin (1000 / 999)"
        and ?a11.0 = "Fin 1" and ?a12.0 = "Fin 0" and ?a22.0 = "Fin 1"
        and ?c0.0 = "Fin (- (1999 / 998001))" and ?c1.0 = "Fin (1994003 / 998001)"
        and ?c2.0 = "Fin 3" and ?c2Div3.0 = "Fin 1"
        and aDiv3' = "Fin (- (1000000 / 2994003))" and ?aDiv3.0 = "Fin (- (1000000 / 2994003))"
        and ?mbDiv2.0 = "Fin 0"
        and q' = "Fin (- (1000000 / 2994003 * (1000000 / 2994003) * (1000000 / 2994003)))" and q = "Fin (- (1000000 / 2994003 * (1000000 / 2994003) * (1000000 / 2994003)))"
        and magnitude = "Fin ?m" and angle = "Fin (pi / 6)"
        and cs = "Fin (sqrt 3 / 2)" and sn = "Fin (1 / 2)"
        and ?largest0.0 = "Fin (1999 / 999)" and ?eigenvalue1.0 = "Fin (- (1 / 999))"
        and ?largest1.0 = "Fin (1999 / 999)" and ?eigenvalue2.0 = "Fin 1"])
    show "Fin (1000 / 999) = Fin 1 / (if fgt (M 0) (M 5) then M 0 else M 5)"
      by (simp add: M)
    show "Fin (pi / 6) = atan2f (sqrtf (- Fin (- (1000000 / 2994003 * (1000000 / 2994003) * (1000000 / 2994003))))) (Fin 0) * (Fin 1 / Fin 3)"
      by (simp add: atan2_real_def)
    show "Fin (sqrt 3 / 2) = cosf (Fin (pi / 6))" by (simp add: cos_30)
    show "Fin (1 / 2) = sinf (Fin (pi / 6))" by (simp add: sin_30)
    show "Fin (1999 / 999) = Fin 1 + Fin 2 * Fin ?m * Fin (sqrt 3 / 2)"
      using mag by simp
    show "Fin (- (1 / 999)) = Fin 1 - Fin ?m * (Fin (sqrt 3 / 2) + sqrtf (Fin 3) * Fin (1 / 2))"
      using mag by (simp add: algebra_simps)
    show "Fin 1 = Fin 1 - Fin ?m * (Fin (sqrt 3 / 2) - sqrtf (Fin 3) * Fin (1 / 2))"
      by simp
  qed (simp_all add: M)
  then show ?thesis by simp
qed

lemma skew_sums:
  "map (cluster_sums (two_cluster_scratch skew_pixels []) 11 1 0) [0, 1, 2, 3, 4, 5, 6, 7, 8, 9]
     = map Fin [4, 4, 4, 4, 8, 4, 8, 8, 4, 8]"
  by (simp add: cluster_sums_one_tile two_cluster_scratch_def tile_record_def
        skew_pixels_def corner_def get_component_def float_of_nat_def)

lemma skew_moments:
  "map (finalize_moments (cluster_sums (two_cluster_scratch skew_pixels []) 11 1 0) f0)
       [0, 1, 2, 3, 4, 5, 6, 7, 8, 9]
     = map Fin [4, 1, 1, 1, 999 / 1000, 0, 1, 999 / 1000, 0, 999 / 1000]"
  using skew_sums
  by (simp add: finalize_moments_slots norm_factor_of_def epsilon_def)

lemma skew_table_cells:
  "map skew_table [0, 1, 2, 3, 4, 5, 6, 7, 8, 9]
     = map Fin [4, 1, 1, 1, 999 / 1000, 0, 1, 999 / 1000, 0, 999 / 1000]"
proof -
  let ?raw = "cluster_sums (two_cluster_scratch skew_pixels []) 11 1 0"
  have "map (\<lambda>t. skew_table (0 * 11 + t)) [0, 1, 2, 3, 4, 5, 6, 7, 8, 9, 10]
     = map (finalize_block False ?raw (\<lambda>a. Fin 0)) [0, 1, 2, 3, 4, 5, 6, 7, 8, 9, 10]"
    unfolding skew_table_def by (rule GMMFinalize_launch_cells) simp_all
  then show ?thesis
    using skew_moments [of "\<lambda>a. Fin 0"]
    by (simp add: finalize_block_False_low)
qed

lemma skew_eigenvalue:
  "largest_eigenvalue (\<lambda>a. skew_table (4 + a)) = Fin (1999 / 1000)"
  by (rule largest_eigenvalue_skew) (use skew_table_cells in simp_all)

lemma skew_eigenvalues:
  "findsplit_eigenvalue 1 skew_table 11 0 = (\<lambda>x. if x = 0 then Fin (1999 / 1000) else Fin 0)"
  using skew_eigenvalue by (auto simp: findsplit_eigenvalue_def fun_eq_iff findsplit_gmm_idx_def)

lemma skew_writers: "GMMFindSplit_writers 1 skew_table 11 0 = [0]"
  unfolding GMMFindSplit_writers_eq skew_eigenvalues lanes_max_def upt_32
  by simp

lemma sqrt_3_facts:
  "3 / sqrt 3 = sqrt (3::real)" "2 / sqrt 2 = sqrt (2::real)"
  "1 / sqrt 2 + 1 / sqrt 2 = sqrt (2::real)"
proof -
  show "3 / sqrt 3 = sqrt (3::real)" "2 / sqrt 2 = sqrt (2::real)"
    by (simp_all add: real_div_sqrt)
  then show "1 / sqrt 2 + 1 / sqrt 2 = sqrt (2::real)" by simp
qed

lemma skew_table_2: "skew_table (Suc (Suc 0)) = Fin 1"
proof -
  have "skew_table 2 = Fin 1" using skew_table_cells by simp
  then show ?thesis unfolding numeral_2_eq_2 .
qed

lemma skew_eigenvector:
  "findsplit_eigenvector 1 skew_table 11 uninit 0 0 = diagonal_direction"
  using skew_table_cells
  by (simp add: findsplit_eigenvector_def skew_eigenvalue compute_eigenvector_def Let_def
        cross_prod_def normalize_float3_def make_float3_def diagonal_direction_def
        findsplit_gmm_idx_def)

text \<open>
  Claim C8 is right about the intent and the code misses it. \<^verbatim>\<open>compute_eigenvector\<close> takes
  the cross product of two rows of \<open>M - eigenvalue * I\<close>, but its second row starts with
  \<^verbatim>\<open>M[2]\<close> where the matrix has \<^verbatim>\<open>M[1]\<close>. On the four pixels above the covariance stored by
  the finalization has the entries 0.999, 0, 1, 0.999, 0, 0.999 and \<^verbatim>\<open>largest_eigenvalue\<close>
  returns 1.999. The descriptor that \<^verbatim>\<open>GMMFindSplit\<close> stores holds the unit vector along
  (1, 1, 1), which the matrix does not map to a multiple of itself, and the threshold is
  the projection of the mean onto that vector, the square root of 3. The eigenvector of
  the eigenvalue 1.999 is the unit vector along (1, 0, 1), which the two rows of the
  matrix give, and the projection of the mean onto it is the square root of 2.
\<close>

theorem eigenvector_not_principal:
  "map skew_table [1, 2, 3, 4, 5, 6, 7, 8, 9]
     = map Fin [1, 1, 1, 999 / 1000, 0, 1, 999 / 1000, 0, 999 / 1000]
   \<and> findsplit_eigenvalue 1 skew_table 11 0 0 = Fin (1999 / 1000)
   \<and> GMMFindSplit 1 skew_table 11 zero_float3 0
       = [\<lparr>split_idx = 0, split_threshold = Fin (sqrt 3), split_eigenvector = diagonal_direction\<rparr>]
   \<and> mul_right (\<lambda>a. skew_table (4 + a)) diagonal_direction
       = make_float3 (Fin (1999 / 1000 / sqrt 3)) (Fin (999 / 1000 / sqrt 3))
           (Fin (1999 / 1000 / sqrt 3))
   \<and> mul_right (\<lambda>a. skew_table (4 + a)) principal_direction
       = make_float3 (Fin (1999 / 1000 / sqrt 2)) (Fin 0) (Fin (1999 / 1000 / sqrt 2))
   \<and> scalar_prod (cluster_mean skew_table 11 0) principal_direction = Fin (sqrt 2)
   \<and> normalize_float3
         (cross_prod
            (make_float3 (skew_table 4 - Fin (1999 / 1000)) (skew_table 5) (skew_table 6))
            (make_float3 (skew_table 5) (skew_table 7 - Fin (1999 / 1000)) (skew_table 8)))
       = principal_direction"
proof (intro conjI)
  show "map skew_table [1, 2, 3, 4, 5, 6, 7, 8, 9]
     = map Fin [1, 1, 1, 999 / 1000, 0, 1, 999 / 1000, 0, 999 / 1000]"
    using skew_table_cells by simp
  show "findsplit_eigenvalue 1 skew_table 11 0 0 = Fin (1999 / 1000)"
    unfolding skew_eigenvalues by simp
  show "GMMFindSplit 1 skew_table 11 zero_float3 0
       = [\<lparr>split_idx = 0, split_threshold = Fin (sqrt 3), split_eigenvector = diagonal_direction\<rparr>]"
  proof -
    note c2 = skew_table_2
    have "findsplit_split 1 skew_table 11 zero_float3 0 0
        = \<lparr>split_idx = 0, split_threshold = Fin (sqrt 3), split_eigenvector = diagonal_direction\<rparr>"
      unfolding findsplit_split_def Let_def skew_eigenvector
      using skew_table_cells sqrt_3_facts c2
      by (simp add: findsplit_gmm_idx_def scalar_prod_def make_float3_def diagonal_direction_def)
    then show ?thesis
      by (simp only: GMMFindSplit_def skew_writers list.map)
  qed
  show "mul_right (\<lambda>a. skew_table (4 + a)) diagonal_direction
       = make_float3 (Fin (1999 / 1000 / sqrt 3)) (Fin (999 / 1000 / sqrt 3))
           (Fin (1999 / 1000 / sqrt 3))"
    using skew_table_cells
    by (simp add: mul_right_def make_float3_def diagonal_direction_def field_simps)
  show "mul_right (\<lambda>a. skew_table (4 + a)) principal_direction
       = make_float3 (Fin (1999 / 1000 / sqrt 2)) (Fin 0) (Fin (1999 / 1000 / sqrt 2))"
    using skew_table_cells
    by (simp add: mul_right_def make_float3_def principal_direction_def field_simps)
  show "scalar_prod (cluster_mean skew_table 11 0) principal_direction = Fin (sqrt 2)"
    using skew_table_cells sqrt_3_facts skew_table_2
    by (simp add: scalar_prod_def cluster_mean_def make_float3_def principal_direction_def)
  show "normalize_float3
         (cross_prod
            (make_float3 (skew_table 4 - Fin (1999 / 1000)) (skew_table 5) (skew_table 6))
            (make_float3 (skew_table 5) (skew_table 7 - Fin (1999 / 1000)) (skew_table 8)))
       = principal_direction"
    using skew_table_cells
    by (simp add: cross_prod_def normalize_float3_def make_float3_def principal_direction_def
          Let_def)
qed

section \<open>An overflow of expf on a table of the pipeline\<close>

lemma expf_overflow:
  assumes "128 \<le> a"
  shows "expf (Fin a) = PInf"
proof -
  have "(2::real) \<le> exp 1" using exp_ge_add_one_self [of 1] by simp
  then have "(2::real) ^ 128 \<le> exp 1 ^ 128" by (rule power_mono) simp
  also have "\<dots> = exp (128::real)" using exp_of_nat_mult [of 128 "1::real"] by simp
  also have "\<dots> \<le> exp a" using assms by simp
  finally have "(2::real) ^ 128 \<le> exp a" .
  moreover have "FLT_MAX < (2::real) ^ 128" by (simp add: FLT_MAX_def)
  ultimately have "FLT_MAX < exp a" by linarith
  then show ?thesis by simp
qed

lemma flat_sums:
  "map (cluster_sums (two_cluster_scratch (flat_pixels 20) (flat_pixels 40)) 11 1 0)
       [0, 1, 2, 3, 4, 5, 6, 7, 8, 9]
     = map Fin [2, 30, 40, 60, 500, 600, 900, 800, 1200, 1800]"
  "map (cluster_sums (two_cluster_scratch (flat_pixels 20) (flat_pixels 40)) 11 1 1)
       [0, 1, 2, 3, 4, 5, 6, 7, 8, 9]
     = map Fin [2, 30, 80, 60, 500, 1200, 900, 3200, 2400, 1800]"
  by (simp_all add: cluster_sums_one_tile two_cluster_scratch_def tile_record_def
        flat_pixels_def corner_def get_component_def float_of_nat_def)

lemma flat_moments:
  "map (finalize_moments (cluster_sums (two_cluster_scratch (flat_pixels 20) (flat_pixels 40)) 11 1 0) f0)
       [0, 1, 2, 3, 4, 5, 6, 7, 8, 9]
     = map Fin [2, 15, 20, 30, 24999 / 1000, 0, 0, - (1 / 1000), 0, - (1 / 1000)]"
  "map (finalize_moments (cluster_sums (two_cluster_scratch (flat_pixels 20) (flat_pixels 40)) 11 1 1) f0)
       [0, 1, 2, 3, 4, 5, 6, 7, 8, 9]
     = map Fin [2, 15, 40, 30, 24999 / 1000, 0, 0, - (1 / 1000), 0, - (1 / 1000)]"
  using flat_sums
  by (simp_all add: finalize_moments_slots norm_factor_of_def epsilon_def)

lemma flat_cov:
  "map (finalize_block False (cluster_sums (two_cluster_scratch (flat_pixels 20) (flat_pixels 40)) 11 1 0) f0)
       [4, 5, 6, 7, 8, 9, 10]
     = map Fin [24999 / 1000, 0, 0, - (1 / 1000), 0, - (1 / 1000), 24999 / 1000000000]"
  "map (finalize_block False (cluster_sums (two_cluster_scratch (flat_pixels 20) (flat_pixels 40)) 11 1 1) f0)
       [4, 5, 6, 7, 8, 9, 10]
     = map Fin [24999 / 1000, 0, 0, - (1 / 1000), 0, - (1 / 1000), 24999 / 1000000000]"
  using flat_moments [of f0]
  by (simp_all add: finalize_block_10 finalize_block_False_low sym3_det_def)

lemma flat_table_cells:
  "map flat_table [0, 1, 2, 3, 4, 5, 6, 7, 8, 9, 10]
     = map Fin [2, 15, 20, 30, 1000 / 24999, 0, 0, - 1000, 0, - 1000, 24999 / 1000000000]"
  "map (\<lambda>t. flat_table (11 + t)) [0, 1, 2, 3, 4, 5, 6, 7, 8, 9, 10]
     = map Fin [2, 15, 40, 30, 1000 / 24999, 0, 0, - 1000, 0, - 1000, 24999 / 1000000000]"
proof -
  let ?s = "two_cluster_scratch (flat_pixels 20) (flat_pixels 40)"
  have low: "finalize_block True raw f0 i = finalize_moments raw f0 i" if "i < 4" for raw f0 i
    using that by (simp add: finalize_block_def finalize_inv_low finalize_det_low)
  have inv: "map (finalize_block True (cluster_sums ?s 11 1 b) (\<lambda>a. Fin 0)) [4, 5, 6, 7, 8, 9]
      = map Fin [1000 / 24999, 0, 0, - 1000, 0, - 1000]" if "b = 0 \<or> b = 1" for b
    unfolding finalize_block_True_entries using flat_cov [of "\<lambda>a. Fin 0"] that
    by (auto simp: Let_def sym3_cofactors_def)
  have det: "finalize_block True (cluster_sums ?s 11 1 b) (\<lambda>a. Fin 0) 10 = Fin (24999 / 1000000000)"
    if "b = 0 \<or> b = 1" for b
    using flat_moments [of "\<lambda>a. Fin 0"] that
    by (auto simp: finalize_block_10 sym3_det_def)
  have cells: "map (\<lambda>t. flat_table (b * 11 + t)) [0, 1, 2, 3, 4, 5, 6, 7, 8, 9, 10]
     = map (finalize_block True (cluster_sums ?s 11 1 b) (\<lambda>a. Fin 0)) [0, 1, 2, 3, 4, 5, 6, 7, 8, 9, 10]"
    if "b < 2" for b
    unfolding flat_table_def by (rule GMMFinalize_launch_cells) (use that in simp_all)
  show "map flat_table [0, 1, 2, 3, 4, 5, 6, 7, 8, 9, 10]
     = map Fin [2, 15, 20, 30, 1000 / 24999, 0, 0, - 1000, 0, - 1000, 24999 / 1000000000]"
    using cells [of 0] inv [of 0] det [of 0] flat_moments(1) [of "\<lambda>a. Fin 0"]
    by (simp add: low)
  show "map (\<lambda>t. flat_table (11 + t)) [0, 1, 2, 3, 4, 5, 6, 7, 8, 9, 10]
     = map Fin [2, 15, 40, 30, 1000 / 24999, 0, 0, - 1000, 0, - 1000, 24999 / 1000000000]"
    using cells [of 1] inv [of 1] det [of 1] flat_moments(2) [of "\<lambda>a. Fin 0"]
    by (simp add: low)
qed

lemma flat_common_term:
  "GMMcommonTerm 1 flat_table 11 10 = Fin (1 / sqrt (24999 / 1000000000))"
  "GMMcommonTerm 1 flat_table 11 21 = Fin (1 / sqrt (24999 / 1000000000))"
proof -
  have "GMMcommonTerm 1 flat_table 11 ((2 * 0 + 0) * 11 + 10) = common_term_of 1 flat_table 11 (0, 0)"
    by (rule GMMcommonTerm_slot) simp_all
  then show "GMMcommonTerm 1 flat_table 11 10 = Fin (1 / sqrt (24999 / 1000000000))"
    using flat_table_cells(1) by (simp add: common_term_of_def mixture_pixels_def)
  have "GMMcommonTerm 1 flat_table 11 ((2 * 0 + 1) * 11 + 10) = common_term_of 1 flat_table 11 (0, 1)"
    by (rule GMMcommonTerm_slot) simp_all
  then show "GMMcommonTerm 1 flat_table 11 21 = Fin (1 / sqrt (24999 / 1000000000))"
    using flat_table_cells(2) by (simp add: common_term_of_def mixture_pixels_def)
qed

lemma flat_terms:
  "GMMTerm (corner 10 40 30) (\<lambda>a. GMMcommonTerm 1 flat_table 11 (0 * 11 + a)) = PInf"
  "GMMTerm (corner 10 40 30) (\<lambda>a. GMMcommonTerm 1 flat_table 11 (1 * 11 + a))
     = Fin (1 / sqrt (24999 / 1000000000) * exp (- (12500 / 24999)))"
proof -
  have other: "GMMcommonTerm 1 flat_table 11 (c * 11 + t) = flat_table (c * 11 + t)"
    if "t < 10" for t c
    using that by (intro GMMcommonTerm_other) simp_all
  have o0: "GMMcommonTerm 1 flat_table 11 t = flat_table t" if "t < 10" for t
    using other [OF that, of 0] by simp
  have o1: "GMMcommonTerm 1 flat_table 11 (11 + t) = flat_table (11 + t)" if "t < 10" for t
    using other [OF that, of 1] by simp
  have "flat_table 2 = Fin 20" using flat_table_cells(1) by simp
  then have c2: "flat_table (Suc (Suc 0)) = Fin 20" unfolding numeral_2_eq_2 .
  have big: "expf (Fin (4999787500 / 24999)) = PInf"
    by (rule expf_overflow) simp
  have small: "expf (Fin (- (12500 / 24999))) = Fin (exp (- (12500 / 24999)))"
    by (rule expf_moderate) simp_all
  have pos: "0 < 1 / sqrt (24999 / 1000000000 :: real)" by simp
  show "GMMTerm (corner 10 40 30) (\<lambda>a. GMMcommonTerm 1 flat_table 11 (0 * 11 + a)) = PInf"
    unfolding GMMTerm_def Let_def
    using flat_common_term(1) o0 [of 1] o0 [of 2] o0 [of "Suc (Suc 0)"] o0 [of 3] o0 [of 4]
      o0 [of 5] o0 [of 6] o0 [of 7] o0 [of 8] o0 [of 9] flat_table_cells(1) c2 pos
    by (simp add: make_float3_def float_of_nat_def corner_def big del: expf.simps)
  show "GMMTerm (corner 10 40 30) (\<lambda>a. GMMcommonTerm 1 flat_table 11 (1 * 11 + a))
     = Fin (1 / sqrt (24999 / 1000000000) * exp (- (12500 / 24999)))"
    unfolding GMMTerm_def Let_def
    using flat_common_term(2) o1 [of 1] o1 [of 2] o1 [of 3] o1 [of 4]
      o1 [of 5] o1 [of 6] o1 [of 7] o1 [of 8] o1 [of 9] flat_table_cells(2)
    by (simp add: make_float3_def float_of_nat_def corner_def small del: expf.simps)
qed

text \<open>
  The pipeline on these four pixels. At the pixel (10, 40, 30) the exponent of cluster 0
  is about 199999.5, \<^verbatim>\<open>expf\<close> overflows, the response of mixture 0 and the total are
  \<open>+Inf\<close>, and the kernel writes NaN for mixture 0 and 0 for mixture 1.
\<close>

lemma indefinite_inverse_overflow:
  "GMMDataTermKernel flat_image 2 (GMMcommonTerm (2 div 2) flat_table 11) 11
     (\<lambda>a. None) 4 1 (2, 0) (2 + 0 * 4 + 0 * 1 * 4) = Some NaN
   \<and> GMMDataTermKernel flat_image 2 (GMMcommonTerm (2 div 2) flat_table 11) 11
     (\<lambda>a. None) 4 1 (2, 0) (2 + 0 * 4 + 1 * 1 * 4) = Some (Fin 0)"
proof -
  have px: "flat_image 2 = corner 10 40 30"
    by (simp add: flat_image_def flat_pixels_def)
  have "data_term_weights (corner 10 40 30) 2 (GMMcommonTerm 1 flat_table 11) 11
      = ((\<lambda>i. Fin 0)(0 := PInf,
            1 := Fin (1 / sqrt (24999 / 1000000000) * exp (- (12500 / 24999)))), PInf)"
    using flat_terms by (simp add: data_term_weights_2)
  then show ?thesis
    by (simp add: GMMDataTermKernel_eq Let_def px)
qed

end
